theory Spec2Isabelle
  imports Complex_Main "HOL-Library.AList"
begin

section \<open>Python values\<close>

text \<open>
  The services pass Python objects around (\<open>Dict[str, Any]\<close>, \<open>data: Any\<close>): \<open>None\<close>,
  booleans, integers, strings, lists, tuples and dictionaries with string keys, and
  \<open>PObject\<close> for any other object, an instance of a plain class that is always true and
  has none of the methods and operators used here; it is carried by the text of its
  \<open>repr\<close>. A dictionary is an association list read with \<open>map_of\<close> (the first binding
  of a key is the one \<open>dict.get\<close> sees). A character is a code point below 256.
  Floating-point payloads (timestamps, confidences) and dictionaries with keys that are not
  strings are not part of the value type.
\<close>

datatype pyval =
    PNone
  | PBool bool
  | PInt int
  | PStr string
  | PList "pyval list"
  | PTuple "pyval list"
  | PDict "(string \<times> pyval) list"
  | PObject string

type_synonym pydict = "(string \<times> pyval) list"

datatype error =
  ValueError | AttributeError | TypeError | KeyError | ConnectionError | ResponseError

text \<open>Sequencing of a computation that may raise: the first exception wins.\<close>

definition ebind :: "error + 'a \<Rightarrow> ('a \<Rightarrow> error + 'b) \<Rightarrow> error + 'b" where
  "ebind m f = (case m of Inl e \<Rightarrow> Inl e | Inr x \<Rightarrow> f x)"

text \<open>Truth value of an object, as \<open>if x:\<close>, \<open>not x\<close> and \<open>x or y\<close> test it.\<close>

fun truthy :: "pyval \<Rightarrow> bool" where
  "truthy PNone = False"
| "truthy (PBool b) = b"
| "truthy (PInt n) = (n \<noteq> 0)"
| "truthy (PStr s) = (s \<noteq> [])"
| "truthy (PList xs) = (xs \<noteq> [])"
| "truthy (PTuple xs) = (xs \<noteq> [])"
| "truthy (PDict kvs) = (kvs \<noteq> [])"
| "truthy (PObject r) = True"

definition py_or :: "pyval \<Rightarrow> pyval \<Rightarrow> pyval" where
  "py_or a b = (if truthy a then a else b)"

text \<open>\<open>d.get(k, default)\<close> on a dictionary, and \<open>d.get(k)\<close> with default \<open>None\<close>.\<close>

definition dict_get :: "pydict \<Rightarrow> string \<Rightarrow> pyval \<Rightarrow> pyval" where
  "dict_get d k dflt = (case map_of d k of None \<Rightarrow> dflt | Some v \<Rightarrow> v)"

text \<open>\<open>x.get(k, default)\<close> on any object: only a dictionary has the method.\<close>

fun py_get :: "pyval \<Rightarrow> string \<Rightarrow> pyval \<Rightarrow> error + pyval" where
  "py_get (PDict d) k dflt = Inr (dict_get d k dflt)"
| "py_get _ k dflt = Inl AttributeError"

text \<open>A number as the comparison operators read it (\<open>bool\<close> is a subtype of \<open>int\<close>).\<close>

fun as_number :: "pyval \<Rightarrow> error + int" where
  "as_number (PInt n) = Inr n"
| "as_number (PBool b) = Inr (if b then 1 else 0)"
| "as_number _ = Inl TypeError"

text \<open>\<open>len(x)\<close>.\<close>

fun py_len :: "pyval \<Rightarrow> error + nat" where
  "py_len (PStr s) = Inr (length s)"
| "py_len (PList xs) = Inr (length xs)"
| "py_len (PTuple xs) = Inr (length xs)"
| "py_len (PDict kvs) = Inr (length kvs)"
| "py_len _ = Inl TypeError"

section \<open>Strings\<close>

text \<open>
  \<open>str.lower()\<close> on code points below 256: the ASCII capitals and the Latin-1 capitals
  (192 to 222 but the multiplication sign 215) move up by 32; nothing else changes.
\<close>

definition py_lower_char :: "char \<Rightarrow> char" where
  "py_lower_char c =
     (let n = (of_char c :: nat) in
      if (65 \<le> n \<and> n \<le> 90) \<or> (192 \<le> n \<and> n \<le> 222 \<and> n \<noteq> 215)
      then char_of (n + 32) else c)"

definition py_lower :: "string \<Rightarrow> string" where
  "py_lower s = map py_lower_char s"

text \<open>\<open>str.strip()\<close> removes leading and trailing whitespace (\<open>str.isspace\<close>).\<close>

definition py_isspace :: "char \<Rightarrow> bool" where
  "py_isspace c =
     (let n = (of_char c :: nat) in
      (9 \<le> n \<and> n \<le> 13) \<or> (28 \<le> n \<and> n \<le> 32) \<or> n = 133 \<or> n = 160)"

definition py_strip :: "string \<Rightarrow> string" where
  "py_strip s = rev (dropWhile py_isspace (rev (dropWhile py_isspace s)))"

text \<open>
  \<open>s.replace(old, new)\<close>: every non-overlapping occurrence of \<open>old\<close>, found from the
  left, becomes \<open>new\<close>; an empty \<open>old\<close> matches before every character and at the end.
\<close>

function (sequential) py_replace :: "string \<Rightarrow> string \<Rightarrow> string \<Rightarrow> string" where
  "py_replace old new [] = (if old = [] then new else [])"
| "py_replace old new (c # cs) =
     (if old = [] then new @ c # py_replace old new cs
      else if take (length old) (c # cs) = old
        then new @ py_replace old new (drop (length old) (c # cs))
        else c # py_replace old new cs)"
  by pat_completeness auto
termination
  by (relation "measure (\<lambda>(old, new, s). length s)") (auto simp: neq_Nil_conv)

text \<open>\<open>sub in s\<close> for two strings: \<open>sub\<close> occurs in \<open>s\<close> as a contiguous piece.\<close>

fun py_substring :: "string \<Rightarrow> string \<Rightarrow> bool" where
  "py_substring sub [] = (sub = [])"
| "py_substring sub (c # cs) = (take (length sub) (c # cs) = sub \<or> py_substring sub cs)"

text \<open>\<open>xs[:limit]\<close>: a negative limit counts from the end.\<close>

definition py_slice_to :: "'a list \<Rightarrow> int \<Rightarrow> 'a list" where
  "py_slice_to xs limit =
     (if 0 \<le> limit then take (nat limit) xs else take (length xs - nat (- limit)) xs)"

text \<open>Decimal text of an integer, as \<open>str(n)\<close> gives it.\<close>

function nat_digits :: "nat \<Rightarrow> string" where
  "nat_digits n =
     (if n < 10 then [char_of (48 + n)] else nat_digits (n div 10) @ [char_of (48 + n mod 10)])"
  by pat_completeness auto
termination
  by (relation "measure (\<lambda>n. n)") auto

declare nat_digits.simps [simp del]

definition int_str :: "int \<Rightarrow> string" where
  "int_str i = (if i < 0 then CHR ''-'' # nat_digits (nat (- i)) else nat_digits (nat i))"

text \<open>
  \<open>repr\<close> of a string: single quotes unless the string holds a single quote and no double
  quote; the quote in use and the backslash are escaped, tab, newline and carriage return
  are written \<open>\\t \\n \\r\<close>, and any other unprintable code point as \<open>\\xhh\<close>.
\<close>

definition hex_digit :: "nat \<Rightarrow> char" where
  "hex_digit n = (if n < 10 then char_of (48 + n) else char_of (87 + n))"

definition repr_char :: "char \<Rightarrow> char \<Rightarrow> string" where
  "repr_char quote c =
     (let n = (of_char c :: nat) in
      if c = quote \<or> n = 92 then [CHR 0x5C, c]
      else if n = 9 then [CHR 0x5C, CHR ''t'']
      else if n = 10 then [CHR 0x5C, CHR ''n'']
      else if n = 13 then [CHR 0x5C, CHR ''r'']
      else if n < 32 \<or> (127 \<le> n \<and> n \<le> 160) \<or> n = 173
        then [CHR 0x5C, CHR ''x'', hex_digit (n div 16), hex_digit (n mod 16)]
      else [c])"

definition str_repr :: "string \<Rightarrow> string" where
  "str_repr s =
     (let quote = (if CHR 0x27 \<in> set s \<and> CHR 0x22 \<notin> set s then CHR 0x22 else CHR 0x27)
      in quote # concat (map (repr_char quote) s) @ [quote])"

fun py_join :: "string \<Rightarrow> string list \<Rightarrow> string" where
  "py_join sep [] = []"
| "py_join sep [x] = x"
| "py_join sep (x # y # ys) = x @ sep @ py_join sep (y # ys)"

fun py_repr :: "pyval \<Rightarrow> string" where
  "py_repr PNone = ''None''"
| "py_repr (PBool b) = (if b then ''True'' else ''False'')"
| "py_repr (PInt n) = int_str n"
| "py_repr (PStr s) = str_repr s"
| "py_repr (PList xs) = ''['' @ py_join '', '' (map py_repr xs) @ '']''"
| "py_repr (PTuple xs) =
     ''('' @ py_join '', '' (map py_repr xs) @ (if length xs = 1 then '',)'' else '')'')"
| "py_repr (PDict kvs) =
     ''{'' @ py_join '', '' (map (\<lambda>kv. str_repr (fst kv) @ '': '' @ py_repr (snd kv)) kvs) @ ''}''"
| "py_repr (PObject r) = r"

text \<open>A value inside an f-string, \<open>f"{x}"\<close>: a string as it is, anything else as its \<open>repr\<close>.\<close>

fun py_format :: "pyval \<Rightarrow> string" where
  "py_format (PStr s) = s"
| "py_format v = py_repr v"

lemmas py_string_defs =
  py_lower_def py_lower_char_def py_strip_def py_isspace_def int_str_def nat_digits.simps
  str_repr_def repr_char_def hex_digit_def char_of_def bit_Suc_0_iff

section \<open>Contact deduplication\<close>

text \<open>
  \<open>DataCollector._deduplicate_contacts\<close>. A contact is a dictionary. The loop reads
  \<open>contact.get("email", "").lower()\<close>, which raises \<open>AttributeError\<close> when the field
  holds anything but a string, and the f-string
  \<open>f"{contact.get('first_name', '')} {contact.get('last_name', '')}".lower().strip()\<close>.
\<close>

definition contact_email :: "pydict \<Rightarrow> error + string" where
  "contact_email contact =
     (case dict_get contact ''email'' (PStr []) of
        PStr s \<Rightarrow> Inr (py_lower s)
      | _ \<Rightarrow> Inl AttributeError)"

definition contact_name :: "pydict \<Rightarrow> string" where
  "contact_name contact =
     py_strip (py_lower (py_format (dict_get contact ''first_name'' (PStr []))
                          @ '' '' @ py_format (dict_get contact ''last_name'' (PStr []))))"

fun dedup_loop ::
  "pydict list \<Rightarrow> string set \<Rightarrow> string set \<Rightarrow> pydict list \<Rightarrow> error + pydict list" where
  "dedup_loop [] seen_emails seen_names unique_contacts = Inr unique_contacts"
| "dedup_loop (contact # contacts) seen_emails seen_names unique_contacts =
     (case contact_email contact of
        Inl e \<Rightarrow> Inl e
      | Inr email \<Rightarrow>
          (let name = contact_name contact in
           if email \<noteq> [] \<and> email \<notin> seen_emails then
             dedup_loop contacts (insert email seen_emails) seen_names (unique_contacts @ [contact])
           else if email = [] \<and> name \<noteq> [] \<and> name \<notin> seen_names then
             dedup_loop contacts seen_emails (insert name seen_names) (unique_contacts @ [contact])
           else dedup_loop contacts seen_emails seen_names unique_contacts))"

definition deduplicate_contacts :: "pydict list \<Rightarrow> error + pydict list" where
  "deduplicate_contacts contacts = dedup_loop contacts {} {} []"

text \<open>
  The keys the properties below speak of: the lower-cased email of a contact (empty when
  the field is absent or not a string) and what "seen before" means for a contact that
  follows the contacts \<open>earlier\<close> in the input.
\<close>

definition email_key :: "pydict \<Rightarrow> string" where
  "email_key contact = (case contact_email contact of Inr email \<Rightarrow> email | Inl e \<Rightarrow> [])"

definition first_seen :: "pydict list \<Rightarrow> pydict \<Rightarrow> bool" where
  "first_seen earlier contact =
     (if email_key contact \<noteq> []
      then email_key contact \<notin> set (map email_key earlier)
      else contact_name contact \<noteq> []
           \<and> contact_name contact
               \<notin> set (map contact_name (filter (\<lambda>c. email_key c = []) earlier)))"

definition email_is_string :: "pydict \<Rightarrow> bool" where
  "email_is_string contact =
     (case map_of contact ''email'' of None \<Rightarrow> True | Some (PStr s) \<Rightarrow> True | Some _ \<Rightarrow> False)"

section \<open>JSON\<close>

text \<open>
  The cache keeps values as JSON text. A text is modelled by the document it spells.
  \<open>json.dumps\<close> writes \<open>None\<close>, booleans, integers and strings as they are, a list and
  a tuple both as an array, a dictionary as an object, and raises \<open>TypeError\<close> on any
  other object, at any depth. \<open>json.loads\<close> reads an array as a list and an object as a
  dictionary, filled pair by pair, so that a repeated key keeps its last value.
\<close>

datatype json =
    JNull
  | JBool bool
  | JInt int
  | JStr string
  | JArr "json list"
  | JObj "(string \<times> json) list"

text \<open>\<open>d.update(other)\<close>: the items of \<open>other\<close> are stored one after the other.\<close>

definition dict_update :: "pydict \<Rightarrow> pydict \<Rightarrow> pydict" where
  "dict_update d other = fold (\<lambda>kv. AList.update (fst kv) (snd kv)) other d"

fun esequence :: "(error + 'a) list \<Rightarrow> error + 'a list" where
  "esequence [] = Inr []"
| "esequence (x # xs) = ebind x (\<lambda>y. ebind (esequence xs) (\<lambda>ys. Inr (y # ys)))"

fun json_dumps :: "pyval \<Rightarrow> error + json" where
  "json_dumps PNone = Inr JNull"
| "json_dumps (PBool b) = Inr (JBool b)"
| "json_dumps (PInt n) = Inr (JInt n)"
| "json_dumps (PStr s) = Inr (JStr s)"
| "json_dumps (PList xs) = ebind (esequence (map json_dumps xs)) (\<lambda>js. Inr (JArr js))"
| "json_dumps (PTuple xs) = ebind (esequence (map json_dumps xs)) (\<lambda>js. Inr (JArr js))"
| "json_dumps (PDict kvs) =
     ebind (esequence (map (\<lambda>kv. ebind (json_dumps (snd kv)) (\<lambda>j. Inr (fst kv, j))) kvs))
       (\<lambda>members. Inr (JObj members))"
| "json_dumps (PObject r) = Inl TypeError"

fun json_loads :: "json \<Rightarrow> pyval" where
  "json_loads JNull = PNone"
| "json_loads (JBool b) = PBool b"
| "json_loads (JInt n) = PInt n"
| "json_loads (JStr s) = PStr s"
| "json_loads (JArr js) = PList (map json_loads js)"
| "json_loads (JObj members) =
     PDict (dict_update [] (map (\<lambda>kv. (fst kv, json_loads (snd kv))) members))"

text \<open>
  The values that JSON represents as they are: no tuple and no other object at any depth,
  and dictionaries whose keys are distinct, as the keys of a Python dictionary are.
\<close>

fun json_native :: "pyval \<Rightarrow> bool" where
  "json_native (PList xs) = list_all json_native xs"
| "json_native (PDict kvs) = (distinct (map fst kvs) \<and> list_all (\<lambda>kv. json_native (snd kv)) kvs)"
| "json_native (PTuple xs) = False"
| "json_native (PObject r) = False"
| "json_native v = True"

section \<open>The outside world: Redis, HTTP, configuration\<close>

text \<open>
  What the services reach outside the process is a state that every call takes and returns:
  the Redis server (reachable or not, its keys with their expiry instants, a clock in
  seconds), the answers of the remote HTTP APIs, and the list of the calls made so far.
  A stored string is a JSON text, \<open>JsonText j\<close> for the text of the document \<open>j\<close>, or
  some other text: the empty string, or one that \<open>json.loads\<close> rejects.
\<close>

datatype redis_string = JsonText json | OtherText string

datatype http_reply =
    HttpTimeout
  | HttpFailure
  | HttpResponse nat "pyval option"
    \<comment> \<open>status code, and the body as \<open>response.json()\<close> reads it (\<open>None\<close>: it raises)\<close>

datatype event =
    RedisGet string
  | RedisSetex string int
  | RedisDelete string
  | RedisExists string
  | HttpGet string pydict

record world =
  redis_up :: bool
  redis_data :: "string \<Rightarrow> (redis_string \<times> nat) option"
  clock :: nat
  http :: "string \<Rightarrow> pydict \<Rightarrow> http_reply"
  utcnow_isoformat :: string
  trace :: "event list"

record settings =
  clearbit_api_key :: "string option"
  hunter_api_key :: "string option"
  cache_ttl :: int

text \<open>\<open>bool(self.api_key)\<close> for an optional string.\<close>

definition configured :: "string option \<Rightarrow> bool" where
  "configured key = (case key of None \<Rightarrow> False | Some k \<Rightarrow> k \<noteq> [])"

definition log_event :: "event \<Rightarrow> world \<Rightarrow> world" where
  "log_event ev w = w\<lparr>trace := trace w @ [ev]\<rparr>"

definition advance_clock :: "nat \<Rightarrow> world \<Rightarrow> world" where
  "advance_clock seconds w = w\<lparr>clock := clock w + seconds\<rparr>"

text \<open>
  The Redis client: \<open>GET\<close>, \<open>SETEX\<close> (which refuses an expiry that is not positive),
  \<open>DEL\<close> and \<open>EXISTS\<close>. Every command raises when the server is unreachable; a key past
  its expiry instant is gone.
\<close>

definition redis_live :: "world \<Rightarrow> string \<Rightarrow> redis_string option" where
  "redis_live w key =
     (case redis_data w key of
        None \<Rightarrow> None
      | Some (text, expiry) \<Rightarrow> if clock w < expiry then Some text else None)"

definition redis_get :: "world \<Rightarrow> string \<Rightarrow> (error + redis_string option) \<times> world" where
  "redis_get w key =
     (let w' = log_event (RedisGet key) w in
      if redis_up w then (Inr (redis_live w key), w') else (Inl ConnectionError, w'))"

definition redis_setex :: "world \<Rightarrow> string \<Rightarrow> int \<Rightarrow> redis_string \<Rightarrow> (error + unit) \<times> world" where
  "redis_setex w key seconds text =
     (let w' = log_event (RedisSetex key seconds) w in
      if \<not> redis_up w then (Inl ConnectionError, w')
      else if seconds \<le> 0 then (Inl ResponseError, w')
      else (Inr (), w'\<lparr>redis_data := (redis_data w)(key \<mapsto> (text, clock w + nat seconds))\<rparr>))"

definition redis_delete :: "world \<Rightarrow> string \<Rightarrow> (error + unit) \<times> world" where
  "redis_delete w key =
     (let w' = log_event (RedisDelete key) w in
      if redis_up w then (Inr (), w'\<lparr>redis_data := (redis_data w)(key := None)\<rparr>)
      else (Inl ConnectionError, w'))"

definition redis_exists :: "world \<Rightarrow> string \<Rightarrow> (error + nat) \<times> world" where
  "redis_exists w key =
     (let w' = log_event (RedisExists key) w in
      if redis_up w then (Inr (if redis_live w key = None then 0 else 1), w')
      else (Inl ConnectionError, w'))"

section \<open>Cache service\<close>

text \<open>\<open>CacheService\<close>: each method catches every exception of the Redis client.\<close>

definition generate_key :: "string \<Rightarrow> string \<Rightarrow> string" where
  "generate_key namespace identifier = ''cache:'' @ namespace @ '':'' @ identifier"

definition cache_get :: "world \<Rightarrow> string \<Rightarrow> string \<Rightarrow> pyval \<times> world" where
  "cache_get w namespace identifier =
     (case redis_get w (generate_key namespace identifier) of
        (Inl e, w') \<Rightarrow> (PNone, w')
      | (Inr None, w') \<Rightarrow> (PNone, w')
      | (Inr (Some (OtherText s)), w') \<Rightarrow> (PNone, w')
      | (Inr (Some (JsonText j)), w') \<Rightarrow> (json_loads j, w'))"

definition cache_set ::
  "settings \<Rightarrow> world \<Rightarrow> string \<Rightarrow> string \<Rightarrow> pyval \<Rightarrow> int option \<Rightarrow> bool \<times> world" where
  "cache_set cfg w namespace identifier data ttl =
     (let key = generate_key namespace identifier
      in case json_dumps data of
           Inl e \<Rightarrow> (False, w)
         | Inr json_data \<Rightarrow>
             (let ttl_seconds = (case ttl of None \<Rightarrow> cache_ttl cfg
                                 | Some t \<Rightarrow> if t \<noteq> 0 then t else cache_ttl cfg)
              in case redis_setex w key ttl_seconds (JsonText json_data) of
                   (Inl e, w') \<Rightarrow> (False, w')
                 | (Inr u, w') \<Rightarrow> (True, w')))"

definition cache_delete :: "world \<Rightarrow> string \<Rightarrow> string \<Rightarrow> bool \<times> world" where
  "cache_delete w namespace identifier =
     (case redis_delete w (generate_key namespace identifier) of
        (Inl e, w') \<Rightarrow> (False, w')
      | (Inr u, w') \<Rightarrow> (True, w'))"

definition cache_exists :: "world \<Rightarrow> string \<Rightarrow> string \<Rightarrow> bool \<times> world" where
  "cache_exists w namespace identifier =
     (case redis_exists w (generate_key namespace identifier) of
        (Inl e, w') \<Rightarrow> (False, w')
      | (Inr n, w') \<Rightarrow> (n \<noteq> 0, w'))"

text \<open>
  \<open>get_or_set\<close>: \<open>fetch_func\<close> is any computation on the world that returns a value or
  raises.
\<close>

definition get_or_set ::
  "settings \<Rightarrow> world \<Rightarrow> string \<Rightarrow> string \<Rightarrow> (world \<Rightarrow> (error + pyval) \<times> world)
     \<Rightarrow> int option \<Rightarrow> pyval \<times> world" where
  "get_or_set cfg w namespace identifier fetch_func ttl =
     (case cache_get w namespace identifier of
        (cached, w1) \<Rightarrow>
          if cached \<noteq> PNone then (cached, w1)
          else (case fetch_func w1 of
                  (Inl e, w2) \<Rightarrow> (PNone, w2)
                | (Inr data, w2) \<Rightarrow>
                    if data \<noteq> PNone
                    then (data, snd (cache_set cfg w2 namespace identifier data ttl))
                    else (data, w2)))"

section \<open>Email-discovery source (Hunter)\<close>

text \<open>\<open>"key" in x\<close> and \<open>x["key"]\<close> for a string key, on any object.\<close>

fun py_in :: "string \<Rightarrow> pyval \<Rightarrow> error + bool" where
  "py_in k (PDict d) = Inr (map_of d k \<noteq> None)"
| "py_in k (PList xs) = Inr (PStr k \<in> set xs)"
| "py_in k (PTuple xs) = Inr (PStr k \<in> set xs)"
| "py_in k (PStr s) = Inr (py_substring k s)"
| "py_in k _ = Inl TypeError"

fun py_item :: "pyval \<Rightarrow> string \<Rightarrow> error + pyval" where
  "py_item (PDict d) k = (case map_of d k of None \<Rightarrow> Inl KeyError | Some v \<Rightarrow> Inr v)"
| "py_item _ k = Inl TypeError"

text \<open>
  \<open>HunterService._make_request\<close>: no request without an API key; only a 200 answer with a
  JSON body gives data, every other outcome (and every exception) gives \<open>None\<close>.
\<close>

definition hunter_base_url :: string where
  "hunter_base_url = ''https://api.hunter.io/v2''"

definition hunter_make_request :: "settings \<Rightarrow> world \<Rightarrow> string \<Rightarrow> pydict \<Rightarrow> pyval \<times> world" where
  "hunter_make_request cfg w endpoint params =
     (case hunter_api_key cfg of
        None \<Rightarrow> (PNone, w)
      | Some api_key \<Rightarrow>
          if api_key = [] then (PNone, w)
          else
            (let url = hunter_base_url @ ''/'' @ endpoint;
                 params' = AList.update ''api_key'' (PStr api_key) params;
                 w' = log_event (HttpGet url params') w
             in case http w url params' of
                  HttpResponse status body \<Rightarrow>
                    (if status = 200 then (case body of Some j \<Rightarrow> (j, w') | None \<Rightarrow> (PNone, w'))
                     else (PNone, w'))
                | _ \<Rightarrow> (PNone, w')))"

definition hunter_domain_search ::
  "settings \<Rightarrow> world \<Rightarrow> string \<Rightarrow> bool \<Rightarrow> (error + pyval) \<times> world" where
  "hunter_domain_search cfg w domain use_cache =
     (let cache_key = ''hunter_domain:'' @ domain;
          (cached, w1) = (if use_cache then cache_get w ''hunter'' cache_key else (PNone, w))
      in if use_cache \<and> truthy cached then (Inr cached, w1)
         else
           (let (response, w2) = hunter_make_request cfg w1 ''domain-search'' [(''domain'', PStr domain)]
            in if \<not> truthy response then (Inr PNone, w2)
               else case py_in ''data'' response of
                      Inl e \<Rightarrow> (Inl e, w2)
                    | Inr False \<Rightarrow> (Inr PNone, w2)
                    | Inr True \<Rightarrow>
                        (case py_item response ''data'' of
                           Inl e \<Rightarrow> (Inl e, w2)
                         | Inr data \<Rightarrow>
                             if use_cache
                             then (Inr data, snd (cache_set cfg w2 ''hunter'' cache_key data
                                                    (Some (cache_ttl cfg))))
                             else (Inr data, w2))))"

definition get_email_pattern :: "settings \<Rightarrow> world \<Rightarrow> string \<Rightarrow> (error + pyval) \<times> world" where
  "get_email_pattern cfg w domain =
     (case hunter_domain_search cfg w domain True of
        (Inl e, w') \<Rightarrow> (Inl e, w')
      | (Inr data, w') \<Rightarrow>
          if truthy data then (py_get data ''pattern'' PNone, w') else (Inr PNone, w'))"

text \<open>
  The substitution of \<open>generate_email\<close>, once the pattern is known: four replacements one
  after the other on the lower-cased pattern.
\<close>

definition fill_pattern :: "string \<Rightarrow> string \<Rightarrow> string \<Rightarrow> string" where
  "fill_pattern pattern first_name last_name =
     (let email = py_lower pattern;
          email = py_replace ''{first}'' (py_lower first_name) email;
          email = py_replace ''{last}'' (py_lower last_name) email;
          email = py_replace ''{f}'' (py_lower (take 1 first_name)) email;
          email = py_replace ''{l}'' (py_lower (take 1 last_name)) email
      in email)"

definition generate_email ::
  "settings \<Rightarrow> world \<Rightarrow> string \<Rightarrow> string \<Rightarrow> string \<Rightarrow> (error + string option) \<times> world" where
  "generate_email cfg w first_name last_name domain =
     (case get_email_pattern cfg w domain of
        (Inl e, w') \<Rightarrow> (Inl e, w')
      | (Inr pattern, w') \<Rightarrow>
          if \<not> truthy pattern then (Inr None, w')
          else (case pattern of
                  PStr p \<Rightarrow> (Inr (Some (fill_pattern p first_name last_name)), w')
                | _ \<Rightarrow> (Inl AttributeError, w')))"

text \<open>
  \<open>get_contacts\<close>: the first \<open>limit\<close> entries of \<open>data["emails"]\<close>, each read with
  \<open>email.get(...)\<close>. Slicing something that is not a list, a tuple or a string raises (a
  \<open>TypeError\<close>, or a \<open>KeyError\<close> on a dictionary in recent interpreters); the letters of a
  string have no \<open>get\<close>.
\<close>

definition hunter_contact :: "pyval \<Rightarrow> error + pydict" where
  "hunter_contact email =
     (case email of
        PDict e \<Rightarrow>
          Inr [(''email'', dict_get e ''value'' PNone),
               (''first_name'', dict_get e ''first_name'' PNone),
               (''last_name'', dict_get e ''last_name'' PNone),
               (''position'', dict_get e ''position'' PNone),
               (''department'', dict_get e ''department'' PNone),
               (''seniority'', dict_get e ''seniority'' PNone),
               (''confidence'', dict_get e ''confidence'' PNone),
               (''linkedin'', dict_get e ''linkedin'' PNone),
               (''twitter'', dict_get e ''twitter'' PNone),
               (''phone_number'', dict_get e ''phone_number'' PNone)]
      | _ \<Rightarrow> Inl AttributeError)"

fun contacts_of_emails :: "pyval list \<Rightarrow> error + pydict list" where
  "contacts_of_emails [] = Inr []"
| "contacts_of_emails (email # emails) =
     ebind (hunter_contact email) (\<lambda>c. ebind (contacts_of_emails emails) (\<lambda>cs. Inr (c # cs)))"

definition contacts_of_data :: "pyval \<Rightarrow> int \<Rightarrow> error + pydict list" where
  "contacts_of_data data limit =
     (if \<not> truthy data then Inr []
      else ebind (py_in ''emails'' data) (\<lambda>present.
        if \<not> present then Inr []
        else ebind (py_item data ''emails'') (\<lambda>emails.
          case emails of
            PList xs \<Rightarrow> contacts_of_emails (py_slice_to xs limit)
          | PTuple xs \<Rightarrow> contacts_of_emails (py_slice_to xs limit)
          | PStr s \<Rightarrow> if py_slice_to s limit = [] then Inr [] else Inl AttributeError
          | _ \<Rightarrow> Inl TypeError)))"

definition get_contacts ::
  "settings \<Rightarrow> world \<Rightarrow> string \<Rightarrow> int \<Rightarrow> (error + pydict list) \<times> world" where
  "get_contacts cfg w domain limit =
     (case hunter_domain_search cfg w domain True of
        (Inl e, w') \<Rightarrow> (Inl e, w')
      | (Inr data, w') \<Rightarrow> (contacts_of_data data limit, w'))"

section \<open>Firmographic source (Clearbit)\<close>

definition clearbit_base_url :: string where
  "clearbit_base_url = ''https://company.clearbit.com/v2''"

definition clearbit_make_request :: "settings \<Rightarrow> world \<Rightarrow> string \<Rightarrow> pydict \<Rightarrow> pyval \<times> world" where
  "clearbit_make_request cfg w endpoint params =
     (if \<not> configured (clearbit_api_key cfg) then (PNone, w)
      else
        (let url = clearbit_base_url @ ''/'' @ endpoint;
             w' = log_event (HttpGet url params) w
         in case http w url params of
              HttpResponse status body \<Rightarrow>
                (if status = 200 then (case body of Some j \<Rightarrow> (j, w') | None \<Rightarrow> (PNone, w'))
                 else (PNone, w'))
            | _ \<Rightarrow> (PNone, w')))"

definition enrich_company :: "settings \<Rightarrow> world \<Rightarrow> string \<Rightarrow> bool \<Rightarrow> pyval \<times> world" where
  "enrich_company cfg w domain use_cache =
     (let (cached, w1) = (if use_cache then cache_get w ''clearbit'' domain else (PNone, w))
      in if use_cache \<and> truthy cached then (cached, w1)
         else
           (let (data, w2) = clearbit_make_request cfg w1 ''companies/find'' [(''domain'', PStr domain)]
            in if truthy data \<and> use_cache
               then (data, snd (cache_set cfg w2 ''clearbit'' domain data (Some (cache_ttl cfg))))
               else (data, w2)))"

text \<open>\<open>d.get(outer, {}).get(inner)\<close>.\<close>

definition get_nested :: "pydict \<Rightarrow> string \<Rightarrow> string \<Rightarrow> error + pyval" where
  "get_nested d outer inner = py_get (dict_get d outer (PDict [])) inner PNone"

definition extract_company_info :: "pyval \<Rightarrow> error + pydict" where
  "extract_company_info clearbit_data =
     (if \<not> truthy clearbit_data then Inr []
      else case clearbit_data of
        PDict d \<Rightarrow>
          ebind (get_nested d ''category'' ''industry'') (\<lambda>industry.
          ebind (get_nested d ''category'' ''sector'') (\<lambda>sector.
          ebind (get_nested d ''metrics'' ''employees'') (\<lambda>employees.
          ebind (get_nested d ''metrics'' ''employeesRange'') (\<lambda>employees_range.
          ebind (get_nested d ''geo'' ''city'') (\<lambda>city.
          ebind (get_nested d ''geo'' ''state'') (\<lambda>state.
          ebind (get_nested d ''geo'' ''country'') (\<lambda>country.
          ebind (get_nested d ''linkedin'' ''handle'') (\<lambda>linkedin_handle.
          ebind (get_nested d ''twitter'' ''handle'') (\<lambda>twitter_handle.
          ebind (get_nested d ''facebook'' ''handle'') (\<lambda>facebook_handle.
          ebind (get_nested d ''metrics'' ''raised'') (\<lambda>raised.
          ebind (get_nested d ''metrics'' ''annualRevenue'') (\<lambda>annual_revenue.
            Inr [(''name'', dict_get d ''name'' PNone),
                 (''domain'', dict_get d ''domain'' PNone),
                 (''description'', dict_get d ''description'' PNone),
                 (''industry'', industry),
                 (''sector'', sector),
                 (''employee_count'', employees),
                 (''employee_range'', employees_range),
                 (''founded_year'', dict_get d ''foundedYear'' PNone),
                 (''location'', dict_get d ''location'' PNone),
                 (''city'', city),
                 (''state'', state),
                 (''country'', country),
                 (''logo_url'', dict_get d ''logo'' PNone),
                 (''website'', dict_get d ''url'' PNone),
                 (''linkedin_url'', linkedin_handle),
                 (''twitter_handle'', twitter_handle),
                 (''facebook_handle'', facebook_handle),
                 (''tech_stack'', dict_get d ''tech'' (PList [])),
                 (''tags'', dict_get d ''tags'' (PList [])),
                 (''type'', dict_get d ''type'' PNone),
                 (''phone'', dict_get d ''phone'' PNone),
                 (''email_provider'', dict_get d ''emailProvider'' PNone),
                 (''funding'', PDict [(''total'', raised),
                                      (''annual_revenue'', annual_revenue)])]))))))))))))
      | _ \<Rightarrow> Inl AttributeError)"

section \<open>Scraped-profile source (LinkedIn)\<close>

text \<open>
  The collector holds one scraper object, \<open>self.linkedin\<close>, and calls two of its methods;
  each may read the world and may raise. The module binds it to the mock scraper, which
  touches nothing; its float timestamps \<open>time.time()\<close> are values given from outside.
\<close>

record linkedin_adapter =
  search_company :: "string \<Rightarrow> bool \<Rightarrow> world \<Rightarrow> (error + pyval) \<times> world"
  scrape_company_employees ::
    "string \<Rightarrow> int \<Rightarrow> bool \<Rightarrow> world \<Rightarrow> (error + pydict list) \<times> world"

definition mock_search_company :: "pyval \<Rightarrow> string \<Rightarrow> bool \<Rightarrow> pyval" where
  "mock_search_company scraped_at company_name use_cache =
     PDict
       [(''name'', PStr company_name),
        (''linkedin_url'', PStr (''https://www.linkedin.com/company/''
            @ py_replace '' '' ''-'' (py_lower company_name) @ ''/'')),
        (''description'', PStr (company_name @ '' is a leading company in its industry.'')),
        (''industry'', PStr ''Technology''),
        (''company_size'', PStr ''50-200 employees''),
        (''headquarters'', PStr ''San Francisco, CA''),
        (''founded'', PStr ''2020''),
        (''website'', PStr (''https://www.'' @ py_replace '' '' [] (py_lower company_name) @ ''.com'')),
        (''employee_count'', PInt 150),
        (''scraped_at'', scraped_at)]"

definition titles :: "string list" where
  "titles =
     [''Chief Executive Officer'', ''Chief Technology Officer'', ''VP of Engineering'',
      ''VP of Sales'', ''Head of Marketing'', ''Engineering Manager'',
      ''Senior Software Engineer'', ''Product Manager'', ''Sales Director'',
      ''Customer Success Manager'']"

definition mock_employee :: "(nat \<Rightarrow> pyval) \<Rightarrow> string \<Rightarrow> nat \<Rightarrow> pydict" where
  "mock_employee scraped_at company_name i =
     [(''name'', PStr (''Person '' @ int_str (int i + 1))),
      (''title'', PStr (titles ! i)),
      (''location'', PStr ''San Francisco Bay Area''),
      (''profile_url'', PStr (''https://www.linkedin.com/in/person-'' @ int_str (int i + 1) @ ''/'')),
      (''company'', PStr company_name),
      (''is_decision_maker'', PBool (i < 5)),
      (''seniority_level'', PStr (if i < 2 then ''C-Level'' else if i < 5 then ''VP'' else ''Manager'')),
      (''scraped_at'', scraped_at i)]"

definition mock_scrape_company_employees ::
  "(nat \<Rightarrow> pyval) \<Rightarrow> string \<Rightarrow> int \<Rightarrow> bool \<Rightarrow> pydict list" where
  "mock_scrape_company_employees scraped_at company_name limit use_cache =
     map (mock_employee scraped_at company_name) [0 ..< nat (min limit (int (length titles)))]"

definition mock_linkedin_scraper :: "(nat \<Rightarrow> pyval) \<Rightarrow> linkedin_adapter" where
  "mock_linkedin_scraper scraped_at =
     \<lparr> search_company = (\<lambda>company_name use_cache w.
           (Inr (mock_search_company (scraped_at 0) company_name use_cache), w)),
       scrape_company_employees = (\<lambda>company_name limit use_cache w.
           (Inr (mock_scrape_company_employees scraped_at company_name limit use_cache), w)) \<rparr>"

section \<open>Data collector\<close>

text \<open>
  The \<open>result\<close> dictionary of \<open>collect_company_data\<close> has seven fixed keys; it is a record
  here, with \<open>aggregated_data\<close> the dictionary that the sources fill.
\<close>

record collected =
  collected_at :: string
  res_company_name :: pyval
  res_domain :: pyval
  linkedin_data :: pyval
  clearbit_data :: pyval
  hunter_data :: pyval
  aggregated_data :: pydict

definition str_given :: "string option \<Rightarrow> bool" where
  "str_given s = (case s of None \<Rightarrow> False | Some x \<Rightarrow> x \<noteq> [])"

definition opt_str :: "string option \<Rightarrow> pyval" where
  "opt_str s = (case s of None \<Rightarrow> PNone | Some x \<Rightarrow> PStr x)"

text \<open>
  \<open>_merge_company_data\<close>. Of the six values of the update, \<open>linkedin.get("linkedin_url")\<close>
  is always evaluated, so a scraped payload that is not a dictionary raises.
\<close>

definition merge_company_data :: "collected \<Rightarrow> error + pydict" where
  "merge_company_data result =
     (let merged = aggregated_data result in
      ebind
        (if truthy (linkedin_data result) then
           (case linkedin_data result of
              PDict linkedin \<Rightarrow>
                Inr (dict_update merged
                  [(''name'', py_or (dict_get merged ''name'' PNone) (dict_get linkedin ''name'' PNone)),
                   (''description'', py_or (dict_get merged ''description'' PNone)
                                           (dict_get linkedin ''description'' PNone)),
                   (''industry'', py_or (dict_get merged ''industry'' PNone)
                                        (dict_get linkedin ''industry'' PNone)),
                   (''employee_count'', py_or (dict_get merged ''employee_count'' PNone)
                                              (dict_get linkedin ''employee_count'' PNone)),
                   (''website'', py_or (dict_get merged ''website'' PNone)
                                       (dict_get linkedin ''website'' PNone)),
                   (''linkedin_url'', dict_get linkedin ''linkedin_url'' PNone)])
            | _ \<Rightarrow> Inl AttributeError)
         else Inr merged)
        (\<lambda>merged.
           Inr (AList.update ''sources_used''
                  (PList ((if truthy (linkedin_data result) then [PStr ''linkedin''] else [])
                        @ (if truthy (clearbit_data result) then [PStr ''clearbit''] else [])
                        @ (if truthy (hunter_data result) then [PStr ''hunter''] else [])))
                  merged)))"

definition linkedin_step ::
  "linkedin_adapter \<Rightarrow> string option \<Rightarrow> bool \<Rightarrow> collected \<times> world \<Rightarrow> collected \<times> world" where
  "linkedin_step linkedin company_name use_cache rw =
     (case rw of (result, w) \<Rightarrow>
        if str_given company_name then
          (case search_company linkedin (the company_name) use_cache w of
             (Inl e, w') \<Rightarrow> (result, w')
           | (Inr data, w') \<Rightarrow> (result\<lparr>linkedin_data := data\<rparr>, w'))
        else (result, w))"

definition clearbit_step ::
  "settings \<Rightarrow> string option \<Rightarrow> bool \<Rightarrow> collected \<times> world \<Rightarrow> collected \<times> world" where
  "clearbit_step cfg domain use_cache rw =
     (case rw of (result, w) \<Rightarrow>
        if str_given domain \<and> configured (clearbit_api_key cfg) then
          (case enrich_company cfg w (the domain) use_cache of
             (data, w') \<Rightarrow>
               (let result' = result\<lparr>clearbit_data := data\<rparr> in
                if truthy data then
                  (case extract_company_info data of
                     Inl e \<Rightarrow> (result', w')
                   | Inr info \<Rightarrow>
                       (result'\<lparr>aggregated_data := dict_update (aggregated_data result') info\<rparr>, w'))
                else (result', w')))
        else (result, w))"

definition hunter_step ::
  "settings \<Rightarrow> string option \<Rightarrow> bool \<Rightarrow> collected \<times> world \<Rightarrow> collected \<times> world" where
  "hunter_step cfg domain use_cache rw =
     (case rw of (result, w) \<Rightarrow>
        if str_given domain \<and> configured (hunter_api_key cfg) then
          (case hunter_domain_search cfg w (the domain) use_cache of
             (Inl e, w') \<Rightarrow> (result, w')
           | (Inr data, w') \<Rightarrow>
               (let result' = result\<lparr>hunter_data := data\<rparr> in
                if truthy data then
                  (case data of
                     PDict h \<Rightarrow>
                       (result'\<lparr>aggregated_data :=
                           AList.update ''total_emails_found'' (dict_get h ''total'' (PInt 0))
                             (AList.update ''email_pattern'' (dict_get h ''pattern'' PNone)
                                (aggregated_data result'))\<rparr>, w')
                   | _ \<Rightarrow> (result', w'))
                else (result', w')))
        else (result, w))"

definition collect_company_data ::
  "settings \<Rightarrow> linkedin_adapter \<Rightarrow> world \<Rightarrow> string option \<Rightarrow> string option \<Rightarrow> bool
     \<Rightarrow> (error + collected) \<times> world" where
  "collect_company_data cfg linkedin w company_name domain use_cache =
     (if \<not> str_given company_name \<and> \<not> str_given domain then (Inl ValueError, w)
      else
        (let result = \<lparr> collected_at = utcnow_isoformat w,
                         res_company_name = opt_str company_name,
                         res_domain = opt_str domain,
                         linkedin_data = PNone,
                         clearbit_data = PNone,
                         hunter_data = PNone,
                         aggregated_data = [] \<rparr>;
             rw = linkedin_step linkedin company_name use_cache (result, w);
             rw = clearbit_step cfg domain use_cache rw;
             rw = hunter_step cfg domain use_cache rw
         in (ebind (merge_company_data (fst rw))
               (\<lambda>merged. Inr ((fst rw)\<lparr>aggregated_data := merged\<rparr>)), snd rw)))"

definition collect_contacts ::
  "settings \<Rightarrow> linkedin_adapter \<Rightarrow> world \<Rightarrow> string \<Rightarrow> string \<Rightarrow> int \<Rightarrow> bool
     \<Rightarrow> (error + pydict list) \<times> world" where
  "collect_contacts cfg linkedin w company_name domain limit use_cache =
     (let contacts = [];
          (contacts, w1) =
             (case scrape_company_employees linkedin company_name limit use_cache w of
                (Inl e, w') \<Rightarrow> (contacts, w')
              | (Inr linkedin_contacts, w') \<Rightarrow> (contacts @ linkedin_contacts, w'));
          (contacts, w2) =
             (if configured (hunter_api_key cfg) then
                (case get_contacts cfg w1 domain limit of
                   (Inl e, w') \<Rightarrow> (contacts, w')
                 | (Inr hunter_contacts, w') \<Rightarrow> (contacts @ hunter_contacts, w'))
              else (contacts, w1))
      in (ebind (deduplicate_contacts contacts) (\<lambda>contacts. Inr (py_slice_to contacts limit)), w2))"

section \<open>Lead score\<close>

text \<open>
  \<open>DataCollector.calculate_lead_score\<close>. The score is a Python float; every value it takes
  here is an integer below 101 (the completeness share \<open>k / 5 * 30\<close> rounds to a multiple
  of 6), so it is computed exactly and modelled as a real number.
\<close>

definition required_fields :: "string list" where
  "required_fields = [''name'', ''domain'', ''industry'', ''employee_count'', ''description'']"

definition completeness_points :: "pydict \<Rightarrow> real" where
  "completeness_points company_data =
     (real (length (filter (\<lambda>field. truthy (dict_get company_data field PNone)) required_fields))
        / real (length required_fields)) * 30"

definition size_points :: "pydict \<Rightarrow> error + real" where
  "size_points company_data =
     (let employee_count = dict_get company_data ''employee_count'' PNone in
      if truthy employee_count then
        ebind (as_number employee_count) (\<lambda>n.
          if 50 \<le> n \<and> n \<le> 500 then Inr 20
          else if 500 \<le> n \<and> n \<le> 1000 then Inr 15
          else if n < 50 then Inr 10
          else Inr 5)
      else Inr 0)"

definition funding_points :: "pydict \<Rightarrow> error + real" where
  "funding_points company_data =
     (let funding = dict_get company_data ''funding'' (PDict []) in
      ebind (py_get funding ''total'' PNone) (\<lambda>total.
        if truthy total then Inr 20
        else ebind (py_get funding ''annual_revenue'' PNone) (\<lambda>revenue.
          if truthy revenue then Inr 15 else Inr 0)))"

definition tech_points :: "pydict \<Rightarrow> error + real" where
  "tech_points company_data =
     (let tech_stack = dict_get company_data ''tech_stack'' (PList []) in
      ebind (py_len tech_stack) (\<lambda>n.
        if n > 0 then Inr (real (min (n * 3) 15)) else Inr 0))"

definition contact_points :: "pydict \<Rightarrow> error + real" where
  "contact_points company_data =
     (let pattern_pts = (if truthy (dict_get company_data ''email_pattern'' PNone) then 10 else 0) in
      ebind (as_number (dict_get company_data ''total_emails_found'' (PInt 0))) (\<lambda>total.
        Inr (pattern_pts + (if total > 0 then 5 else 0))))"

definition calculate_lead_score :: "pydict \<Rightarrow> error + real" where
  "calculate_lead_score company_data =
     ebind (size_points company_data) (\<lambda>size_pts.
     ebind (funding_points company_data) (\<lambda>funding_pts.
     ebind (tech_points company_data) (\<lambda>tech_pts.
     ebind (contact_points company_data) (\<lambda>contact_pts.
       Inr (min (0 + completeness_points company_data + size_pts + funding_pts
                   + tech_pts + contact_pts) 100)))))"

section \<open>Notions used to state the properties\<close>

text \<open>
  The non-empty email keys and the names of the email-less contacts of a list, in order;
  the same as sets, for the contacts already iterated over.
\<close>

definition email_keys_of :: "pydict list \<Rightarrow> string list" where
  "email_keys_of cs = filter (\<lambda>e. e \<noteq> []) (map email_key cs)"

definition name_keys_of :: "pydict list \<Rightarrow> string list" where
  "name_keys_of cs = map contact_name (filter (\<lambda>c. email_key c = []) cs)"

definition seen_email_keys :: "pydict list \<Rightarrow> string set" where
  "seen_email_keys cs = set (map email_key cs) - {[]}"

definition seen_name_keys :: "pydict list \<Rightarrow> string set" where
  "seen_name_keys cs = set (map contact_name (filter (\<lambda>c. email_key c = []) cs)) - {[]}"

text \<open>A field that is absent or the empty string; a contact with no email and no name.\<close>

definition blank_field :: "pydict \<Rightarrow> string \<Rightarrow> bool" where
  "blank_field contact k = (map_of contact k = None \<or> map_of contact k = Some (PStr []))"

definition nameless :: "pydict \<Rightarrow> bool" where
  "nameless contact =
     (blank_field contact ''email'' \<and> blank_field contact ''first_name''
      \<and> blank_field contact ''last_name'')"

text \<open>
  What the firmographic source contributes to a record: the normalised payload, and
  nothing when the source returned no payload or when normalising the payload raises (the
  exception is caught and \<open>aggregated_data\<close> is left as it was).
\<close>

definition firmographic_fields :: "collected \<Rightarrow> pydict" where
  "firmographic_fields result =
     (if truthy (clearbit_data result) then
        (case extract_company_info (clearbit_data result) of Inr info \<Rightarrow> info | Inl e \<Rightarrow> [])
      else [])"

text \<open>
  A world to run examples in: Redis reachable and empty, a remote side that answers every
  request with the given reply, and no call made yet.
\<close>

definition fresh_world :: "(string \<Rightarrow> pydict \<Rightarrow> http_reply) \<Rightarrow> world" where
  "fresh_world answers =
     \<lparr> redis_up = True, redis_data = (\<lambda>key. None), clock = 0, http = answers,
       utcnow_isoformat = ''2024-01-01T00:00:00'', trace = [] \<rparr>"

definition example_settings :: "string option \<Rightarrow> string option \<Rightarrow> settings" where
  "example_settings clearbit_key hunter_key =
     \<lparr> clearbit_api_key = clearbit_key, hunter_api_key = hunter_key, cache_ttl = 604800 \<rparr>"

text \<open>A scraper that answers every company search with the given payload and touches nothing.\<close>

definition constant_scraper :: "pyval \<Rightarrow> linkedin_adapter" where
  "constant_scraper payload =
     \<lparr> search_company = (\<lambda>company_name use_cache w. (Inr payload, w)),
       scrape_company_employees = (\<lambda>company_name limit use_cache w. (Inr [], w)) \<rparr>"

section \<open>Deduplication: facts about the loop\<close>

lemma email_key_Inr: "contact_email c = Inr e \<Longrightarrow> email_key c = e"
  by (simp add: email_key_def)

lemma dedup_loop_append:
  "dedup_loop (xs @ ys) se sn uq =
     ebind (dedup_loop xs se sn uq)
       (\<lambda>out. dedup_loop ys (se \<union> seen_email_keys xs) (sn \<union> seen_name_keys xs) out)"
proof (induction xs arbitrary: se sn uq)
  case Nil
  show ?case by (simp add: ebind_def seen_email_keys_def seen_name_keys_def)
next
  case (Cons c xs)
  show ?case
  proof (cases "contact_email c")
    case (Inl e)
    then show ?thesis by (simp add: ebind_def)
  next
    case (Inr email)
    have k: "email_key c = email" using Inr by (rule email_key_Inr)
    have E: "seen_email_keys (c # xs) = (if email = [] then seen_email_keys xs else insert email (seen_email_keys xs))"
      using k by (auto simp: seen_email_keys_def)
    have N: "seen_name_keys (c # xs) =
        (if email = [] \<and> contact_name c \<noteq> [] then insert (contact_name c) (seen_name_keys xs) else seen_name_keys xs)"
      using k by (auto simp: seen_name_keys_def)
    show ?thesis
      using Inr by (simp add: Cons.IH E N Let_def insert_absorb)
  qed
qed

lemma dedup_snoc:
  "deduplicate_contacts (earlier @ [c]) =
     ebind (deduplicate_contacts earlier) (\<lambda>kept.
       ebind (contact_email c) (\<lambda>email.
         Inr (if first_seen earlier c then kept @ [c] else kept)))"
proof (cases "contact_email c")
  case (Inl e)
  then show ?thesis
    by (simp add: deduplicate_contacts_def dedup_loop_append ebind_def split: sum.splits)
next
  case (Inr email)
  have k: "email_key c = email" using Inr by (rule email_key_Inr)
  show ?thesis
    using Inr k
    by (auto simp add: deduplicate_contacts_def dedup_loop_append ebind_def first_seen_def
        seen_email_keys_def seen_name_keys_def Let_def split: sum.splits)
qed

lemma dedup_loop_subset:
  "dedup_loop cs se sn uq = Inr out \<Longrightarrow> set out \<subseteq> set uq \<union> set cs"
proof (induction cs arbitrary: se sn uq)
  case Nil
  then show ?case by auto
next
  case (Cons c cs)
  then show ?case
    by (fastforce simp: Let_def split: sum.splits if_splits)
qed

lemma dedup_loop_distinct:
  "dedup_loop cs se sn uq = Inr out \<Longrightarrow>
   distinct (email_keys_of uq) \<Longrightarrow> set (email_keys_of uq) \<subseteq> se \<Longrightarrow>
   distinct (name_keys_of uq) \<Longrightarrow> set (name_keys_of uq) \<subseteq> sn \<Longrightarrow>
   distinct (email_keys_of out) \<and> distinct (name_keys_of out)"
proof (induction cs arbitrary: se sn uq)
  case Nil
  then show ?case by simp
next
  case (Cons c cs)
  from Cons.prems(1) obtain email where em: "contact_email c = Inr email"
    by (cases "contact_email c") auto
  have k: "email_key c = email" using em by (rule email_key_Inr)
  consider (a) "email \<noteq> []" "email \<notin> se"
    | (b) "email = []" "contact_name c \<noteq> []" "contact_name c \<notin> sn"
    | (c) "\<not> (email \<noteq> [] \<and> email \<notin> se)" "\<not> (email = [] \<and> contact_name c \<noteq> [] \<and> contact_name c \<notin> sn)"
    by blast
  then show ?case
  proof cases
    case a
    have step: "dedup_loop cs (insert email se) sn (uq @ [c]) = Inr out"
      using Cons.prems(1) em a by simp
    have e1: "email_keys_of (uq @ [c]) = email_keys_of uq @ [email]"
      using a k by (simp add: email_keys_of_def)
    have n1: "name_keys_of (uq @ [c]) = name_keys_of uq"
      using a k by (simp add: name_keys_of_def)
    show ?thesis
      apply (rule Cons.IH [OF step])
      using Cons.prems a e1 n1 by auto
  next
    case b
    have step: "dedup_loop cs se (insert (contact_name c) sn) (uq @ [c]) = Inr out"
      using Cons.prems(1) em b by simp
    have e1: "email_keys_of (uq @ [c]) = email_keys_of uq"
      using b k by (simp add: email_keys_of_def)
    have n1: "name_keys_of (uq @ [c]) = name_keys_of uq @ [contact_name c]"
      using b k by (simp add: name_keys_of_def)
    show ?thesis
      apply (rule Cons.IH [OF step])
      using Cons.prems b e1 n1 by auto
  next
    case c
    have step: "dedup_loop cs se sn uq = Inr out"
      using Cons.prems(1) em c by (simp add: Let_def split: if_splits)
    show ?thesis
      by (rule Cons.IH [OF step]) (use Cons.prems in auto)
  qed
qed

lemma contact_email_ok: "(\<exists>e. contact_email c = Inr e) \<longleftrightarrow> email_is_string c"
  by (auto simp: contact_email_def email_is_string_def dict_get_def split: option.splits pyval.splits)

lemma contact_email_error: "contact_email c = Inl e \<Longrightarrow> e = AttributeError"
  by (auto simp: contact_email_def split: pyval.splits)

lemma dedup_loop_returns:
  "(\<exists>out. dedup_loop cs se sn uq = Inr out) \<longleftrightarrow> list_all email_is_string cs"
proof (induction cs arbitrary: se sn uq)
  case Nil
  show ?case by simp
next
  case (Cons c cs)
  show ?case
  proof (cases "contact_email c")
    case (Inl e)
    then have "\<not> email_is_string c" using contact_email_ok [of c] by auto
    then show ?thesis using Inl by simp
  next
    case (Inr email)
    then have "email_is_string c" using contact_email_ok [of c] by auto
    then show ?thesis using Inr Cons.IH by (simp add: Let_def)
  qed
qed

lemma dedup_loop_error:
  "dedup_loop cs se sn uq = Inl e \<Longrightarrow> e = AttributeError"
proof (induction cs arbitrary: se sn uq)
  case Nil
  then show ?case by simp
next
  case (Cons c cs)
  then show ?case
    by (auto simp: Let_def split: sum.splits if_splits dest: contact_email_error)
qed

lemma nameless_keys: "nameless c \<Longrightarrow> contact_email c = Inr [] \<and> contact_name c = []"
  by (auto simp: nameless_def blank_field_def contact_email_def contact_name_def dict_get_def
      py_string_defs)

lemma dedup_loop_drop_all_nameless:
  "list_all nameless ls \<Longrightarrow> dedup_loop (ls @ cs) se sn uq = dedup_loop cs se sn uq"
  by (induction ls) (simp_all add: nameless_keys)

lemma dedup_drop_nameless_anywhere:
  "nameless c \<Longrightarrow> deduplicate_contacts (xs @ c # ys) = deduplicate_contacts (xs @ ys)"
  by (simp add: deduplicate_contacts_def dedup_loop_append nameless_keys)

lemma dedup_loop_never_keeps_nameless:
  "dedup_loop cs se sn uq = Inr out \<Longrightarrow> nameless c \<Longrightarrow> c \<notin> set uq \<Longrightarrow> c \<notin> set out"
proof (induction cs arbitrary: se sn uq)
  case Nil
  then show ?case by simp
next
  case (Cons x cs)
  from Cons.prems(1) obtain email where em: "contact_email x = Inr email"
    by (cases "contact_email x") auto
  have differs: "email \<noteq> [] \<or> contact_name x \<noteq> [] \<Longrightarrow> x \<noteq> c"
    using em nameless_keys [OF Cons.prems(2)] by auto
  show ?case
  proof (cases "email \<noteq> [] \<and> email \<notin> se")
    case True
    then have step: "dedup_loop cs (insert email se) sn (uq @ [x]) = Inr out"
      using Cons.prems(1) em by simp
    show ?thesis
      by (rule Cons.IH [OF step Cons.prems(2)]) (use True differs Cons.prems(3) in auto)
  next
    case False
    show ?thesis
    proof (cases "email = [] \<and> contact_name x \<noteq> [] \<and> contact_name x \<notin> sn")
      case True
      then have step: "dedup_loop cs se (insert (contact_name x) sn) (uq @ [x]) = Inr out"
        using Cons.prems(1) em by simp
      show ?thesis
        by (rule Cons.IH [OF step Cons.prems(2)]) (use True differs Cons.prems(3) in auto)
    next
      case nokeep: False
      then have step: "dedup_loop cs se sn uq = Inr out"
        using Cons.prems(1) em False by (simp add: Let_def split: if_splits)
      show ?thesis
        by (rule Cons.IH [OF step Cons.prems(2) Cons.prems(3)])
    qed
  qed
qed

lemma mock_employee_nameless: "nameless (mock_employee scraped_at company_name i)"
  by (simp add: nameless_def blank_field_def mock_employee_def)

lemma mock_employees_nameless:
  "list_all nameless (mock_scrape_company_employees scraped_at company_name limit use_cache)"
  by (simp add: mock_scrape_company_employees_def list_all_iff mock_employee_nameless)

lemma dedup_example:
  "deduplicate_contacts
     [[(''email'', PStr ''a@x.com''), (''name'', PStr ''A'')],
      [(''email'', PStr ''A@X.COM''), (''name'', PStr ''A2'')],
      [(''email'', PStr ''b@x.com''), (''name'', PStr ''B'')]]
   = Inr [[(''email'', PStr ''a@x.com''), (''name'', PStr ''A'')],
          [(''email'', PStr ''b@x.com''), (''name'', PStr ''B'')]]"
  by (simp add: deduplicate_contacts_def contact_email_def contact_name_def dict_get_def
      py_string_defs)

lemma dedup_names_example:
  "deduplicate_contacts
     [[(''first_name'', PStr ''Ann''), (''last_name'', PStr ''Lee'')],
      [(''first_name'', PStr ''Bob''), (''last_name'', PStr ''Ray'')],
      [(''first_name'', PStr ''ANN''), (''last_name'', PStr ''Lee '')]]
   = Inr [[(''first_name'', PStr ''Ann''), (''last_name'', PStr ''Lee'')],
          [(''first_name'', PStr ''Bob''), (''last_name'', PStr ''Ray'')]]"
  by (simp add: deduplicate_contacts_def contact_email_def contact_name_def dict_get_def
      py_string_defs)

section \<open>Company data: facts about the collection steps\<close>

lemma dict_update_map_of:
  "distinct (map fst other) \<Longrightarrow> map_of (dict_update d other) = map_of d ++ map_of other"
proof (induction other arbitrary: d)
  case Nil
  show ?case by (simp add: dict_update_def)
next
  case (Cons kv other)
  obtain k v where kv: "kv = (k, v)" by (cases kv)
  have fresh: "k \<notin> dom (map_of other)"
    using Cons.prems kv by (simp add: dom_map_of_conv_image_fst)
  have "map_of (dict_update d (kv # other)) = map_of (dict_update (AList.update k v d) other)"
    by (simp add: dict_update_def kv)
  also have "\<dots> = map_of (AList.update k v d) ++ map_of other"
    using Cons.IH Cons.prems by simp
  also have "\<dots> = (map_of d)(k \<mapsto> v) ++ map_of other"
    by (simp add: update_conv')
  also have "\<dots> = map_of d ++ map_of (kv # other)"
    using fresh by (simp add: kv map_add_upd_left)
  finally show ?case .
qed

lemma extract_company_info_distinct:
  "extract_company_info cb = Inr info \<Longrightarrow> distinct (map fst info)"
  by (auto simp: extract_company_info_def ebind_def split: if_splits pyval.splits sum.splits)

lemma linkedin_step_fields:
  "linkedin_step linkedin company_name use_cache (r, w) = (r', w') \<Longrightarrow>
     clearbit_data r' = clearbit_data r \<and> hunter_data r' = hunter_data r
     \<and> aggregated_data r' = aggregated_data r"
  by (auto simp: linkedin_step_def split: if_splits prod.splits sum.splits)

lemma firmographic_fields_distinct: "distinct (map fst (firmographic_fields r))"
  by (auto simp: firmographic_fields_def dest: extract_company_info_distinct split: sum.splits)

lemma clearbit_step_fields:
  "clearbit_step cfg domain use_cache (r, w) = (r', w') \<Longrightarrow>
     linkedin_data r' = linkedin_data r
     \<and> (\<not> truthy (clearbit_data r) \<longrightarrow>
          aggregated_data r' = dict_update (aggregated_data r) (firmographic_fields r'))"
  by (auto simp: clearbit_step_def firmographic_fields_def dict_update_def Let_def
      split: if_splits prod.splits sum.splits)

lemma hunter_step_fields:
  "hunter_step cfg domain use_cache (r, w) = (r', w') \<Longrightarrow>
     linkedin_data r' = linkedin_data r \<and> clearbit_data r' = clearbit_data r
     \<and> (k \<noteq> ''email_pattern'' \<longrightarrow> k \<noteq> ''total_emails_found'' \<longrightarrow>
          map_of (aggregated_data r') k = map_of (aggregated_data r) k)"
  by (auto simp: hunter_step_def Let_def update_conv' split: if_splits prod.splits sum.splits pyval.splits)

lemma merge_company_data_scraped:
  "linkedin_data r = PDict scraped \<Longrightarrow> scraped \<noteq> [] \<Longrightarrow> merge_company_data r = Inr merged \<Longrightarrow>
   (field \<in> set [''name'', ''description'', ''industry'', ''employee_count'', ''website''] \<longrightarrow>
      map_of merged field = Some (py_or (dict_get (aggregated_data r) field PNone)
                                        (dict_get scraped field PNone)))
   \<and> map_of merged ''linkedin_url'' = Some (dict_get scraped ''linkedin_url'' PNone)"
  by (auto simp: merge_company_data_def ebind_def dict_update_def update_conv' Let_def)

lemma merge_company_data_truthy:
  "merge_company_data r = Inr merged \<Longrightarrow> truthy (linkedin_data r) \<Longrightarrow>
     \<exists>scraped. linkedin_data r = PDict scraped \<and> scraped \<noteq> []"
  by (cases "linkedin_data r") (auto simp: merge_company_data_def ebind_def)

lemma merge_company_data_unscraped:
  "merge_company_data r = Inr merged \<Longrightarrow> \<not> truthy (linkedin_data r) \<Longrightarrow>
     k \<noteq> ''sources_used'' \<Longrightarrow> map_of merged k = map_of (aggregated_data r) k"
  by (auto simp: merge_company_data_def ebind_def update_conv' Let_def)

lemma collect_company_data_steps:
  assumes run: "collect_company_data cfg linkedin w company_name domain use_cache = (Inr result, w')"
  obtains r1 w1 r2 w2 r3 merged where
    "linkedin_step linkedin company_name use_cache
       (\<lparr> collected_at = utcnow_isoformat w, res_company_name = opt_str company_name,
          res_domain = opt_str domain, linkedin_data = PNone, clearbit_data = PNone,
          hunter_data = PNone, aggregated_data = [] \<rparr>, w) = (r1, w1)"
    "clearbit_step cfg domain use_cache (r1, w1) = (r2, w2)"
    "hunter_step cfg domain use_cache (r2, w2) = (r3, w')"
    "merge_company_data r3 = Inr merged"
    "result = r3\<lparr>aggregated_data := merged\<rparr>"
proof -
  let ?r0 = "\<lparr> collected_at = utcnow_isoformat w, res_company_name = opt_str company_name,
          res_domain = opt_str domain, linkedin_data = PNone, clearbit_data = PNone,
          hunter_data = PNone, aggregated_data = [] \<rparr>"
  obtain r1 w1 where s1: "linkedin_step linkedin company_name use_cache (?r0, w) = (r1, w1)"
    by (cases "linkedin_step linkedin company_name use_cache (?r0, w)")
  obtain r2 w2 where s2: "clearbit_step cfg domain use_cache (r1, w1) = (r2, w2)"
    by (cases "clearbit_step cfg domain use_cache (r1, w1)")
  obtain r3 w3 where s3: "hunter_step cfg domain use_cache (r2, w2) = (r3, w3)"
    by (cases "hunter_step cfg domain use_cache (r2, w2)")
  from run s1 s2 s3 have fin: "ebind (merge_company_data r3)
        (\<lambda>merged. Inr (r3\<lparr>aggregated_data := merged\<rparr>)) = Inr result" and w3: "w3 = w'"
    by (auto simp: collect_company_data_def Let_def split: if_splits)
  then obtain merged where m: "merge_company_data r3 = Inr merged"
      and res: "result = r3\<lparr>aggregated_data := merged\<rparr>"
    by (cases "merge_company_data r3") (auto simp: ebind_def)
  show ?thesis
    using that [OF s1 s2 _ m res] s3 w3 by simp
qed

section \<open>Cache: facts about JSON and the Redis commands\<close>

lemma cache_get_world:
  "snd (cache_get w namespace identifier) = log_event (RedisGet (generate_key namespace identifier)) w"
  by (simp add: cache_get_def redis_get_def Let_def split: option.splits redis_string.splits)

lemma cache_get_live:
  "redis_up w \<Longrightarrow> redis_live w (generate_key namespace identifier) = Some (JsonText j) \<Longrightarrow>
     fst (cache_get w namespace identifier) = json_loads j"
  by (simp add: cache_get_def redis_get_def Let_def)

lemma cache_set_trace:
  "trace (snd (cache_set cfg w namespace identifier data ttl)) =
     trace w @ (case json_dumps data of
                  Inl e \<Rightarrow> []
                | Inr j \<Rightarrow> [RedisSetex (generate_key namespace identifier)
                    (case ttl of None \<Rightarrow> cache_ttl cfg
                     | Some t \<Rightarrow> if t \<noteq> 0 then t else cache_ttl cfg)])"
  by (simp add: cache_set_def redis_setex_def log_event_def Let_def split: option.splits sum.splits)

lemma cache_set_stores:
  "cache_set cfg w namespace identifier data (Some ttl) = (True, w1) \<Longrightarrow> 0 < ttl \<Longrightarrow>
     \<exists>j. json_dumps data = Inr j \<and> redis_up w1 \<and> clock w1 = clock w
       \<and> redis_data w1 (generate_key namespace identifier) = Some (JsonText j, clock w + nat ttl)"
  by (auto simp: cache_set_def redis_setex_def log_event_def Let_def split: if_splits sum.splits)

lemma update_fresh_key: "k \<notin> fst ` set al \<Longrightarrow> AList.update k v al = al @ [(k, v)]"
  by (induction al) auto

lemma dict_update_append:
  "distinct (map fst (al @ kvs)) \<Longrightarrow> dict_update al kvs = al @ kvs"
proof (induction kvs arbitrary: al)
  case Nil
  show ?case by (simp add: dict_update_def)
next
  case (Cons kv kvs)
  have fresh: "fst kv \<notin> fst ` set al"
    using Cons.prems by auto
  have "dict_update al (kv # kvs) = dict_update (al @ [kv]) kvs"
    using update_fresh_key [OF fresh, of "snd kv"] by (simp add: dict_update_def)
  also have "\<dots> = (al @ [kv]) @ kvs"
    by (rule Cons.IH) (use Cons.prems in auto)
  finally show ?case by simp
qed

lemma esequence_round:
  "(\<forall>x \<in> set xs. \<exists>j. f x = Inr j \<and> g j = x) \<Longrightarrow>
     \<exists>js. esequence (map f xs) = Inr js \<and> map g js = xs"
proof (induction xs)
  case Nil
  show ?case by simp
next
  case (Cons x xs)
  then obtain j js where "f x = Inr j" "g j = x" "esequence (map f xs) = Inr js" "map g js = xs"
    by auto
  then show ?case by (simp add: ebind_def)
qed

lemma json_round_trip:
  "json_native v \<Longrightarrow> \<exists>j. json_dumps v = Inr j \<and> json_loads j = v"
proof (induction v)
  case (PList xs)
  have "\<forall>x \<in> set xs. \<exists>j. json_dumps x = Inr j \<and> json_loads j = x"
    using PList by (auto simp: list_all_iff)
  then obtain js where "esequence (map json_dumps xs) = Inr js" "map json_loads js = xs"
    using esequence_round by blast
  then show ?case by (simp add: ebind_def)
next
  case (PDict kvs)
  let ?f = "\<lambda>kv. ebind (json_dumps (snd kv)) (\<lambda>j. Inr (fst kv, j))"
  let ?g = "\<lambda>kv. (fst kv, json_loads (snd kv))"
  have "\<forall>kv \<in> set kvs. \<exists>m. ?f kv = Inr m \<and> ?g m = kv"
  proof
    fix kv assume kv: "kv \<in> set kvs"
    then have "json_native (snd kv)" using PDict.prems by (auto simp: list_all_iff)
    moreover have "snd kv \<in> Basic_BNFs.snds kv" by (cases kv) simp
    ultimately obtain j where "json_dumps (snd kv) = Inr j" "json_loads j = snd kv"
      using PDict.IH [OF kv] by blast
    then show "\<exists>m. ?f kv = Inr m \<and> ?g m = kv" by (simp add: ebind_def)
  qed
  then obtain ms where ms: "esequence (map ?f kvs) = Inr ms" "map ?g ms = kvs"
    using esequence_round [of kvs ?f ?g] by blast
  have "dict_update [] kvs = kvs"
    using dict_update_append [of "[]" kvs] PDict.prems by simp
  then show ?case using ms by (simp add: ebind_def)
qed simp_all

section \<open>Email discovery: facts about the domain search\<close>

lemma hunter_make_request_trace:
  "hunter_api_key cfg = Some key \<Longrightarrow> key \<noteq> [] \<Longrightarrow>
     trace (snd (hunter_make_request cfg w endpoint params)) =
       trace w @ [HttpGet (hunter_base_url @ ''/'' @ endpoint)
                    (AList.update ''api_key'' (PStr key) params)]"
  by (simp add: hunter_make_request_def log_event_def Let_def
      split: http_reply.splits option.splits)

lemma hunter_domain_search_hit:
  assumes hit: "truthy (fst (cache_get w ''hunter'' (''hunter_domain:'' @ domain)))"
  shows "hunter_domain_search cfg w domain True =
       (Inr (fst (cache_get w ''hunter'' (''hunter_domain:'' @ domain))),
        log_event (RedisGet (generate_key ''hunter'' (''hunter_domain:'' @ domain))) w)"
proof -
  obtain c w1 where cg: "cache_get w ''hunter'' (''hunter_domain:'' @ domain) = (c, w1)"
    by (cases "cache_get w ''hunter'' (''hunter_domain:'' @ domain)")
  have w1: "w1 = log_event (RedisGet (generate_key ''hunter'' (''hunter_domain:'' @ domain))) w"
    using cache_get_world [of w "''hunter''" "''hunter_domain:'' @ domain"] cg by simp
  have c: "truthy c" using hit cg by simp
  show ?thesis
    unfolding hunter_domain_search_def Let_def cg using c w1 by simp
qed

lemma hunter_domain_search_miss_trace:
  assumes key: "hunter_api_key cfg = Some key" "key \<noteq> []"
    and miss: "\<not> truthy (fst (cache_get w ''hunter'' (''hunter_domain:'' @ domain)))"
  shows "HttpGet (hunter_base_url @ ''/domain-search'')
            [(''domain'', PStr domain), (''api_key'', PStr key)]
          \<in> set (trace (snd (hunter_domain_search cfg w domain True)))"
proof -
  obtain c w1 where cg: "cache_get w ''hunter'' (''hunter_domain:'' @ domain) = (c, w1)"
    by (cases "cache_get w ''hunter'' (''hunter_domain:'' @ domain)")
  obtain response w2 where
    rq: "hunter_make_request cfg w1 ''domain-search'' [(''domain'', PStr domain)] = (response, w2)"
    by (cases "hunter_make_request cfg w1 ''domain-search'' [(''domain'', PStr domain)]")
  have c: "\<not> truthy c" using miss cg by simp
  have t: "trace w2 = trace w1 @ [HttpGet (hunter_base_url @ ''/domain-search'')
            [(''domain'', PStr domain), (''api_key'', PStr key)]]"
    using hunter_make_request_trace [OF key, of w1 "''domain-search''" "[(''domain'', PStr domain)]"] rq
    by simp
  have "snd (hunter_domain_search cfg w domain True) = w2
      \<or> (\<exists>data. snd (hunter_domain_search cfg w domain True)
            = snd (cache_set cfg w2 ''hunter'' (''hunter_domain:'' @ domain) data
                     (Some (cache_ttl cfg))))"
    unfolding hunter_domain_search_def Let_def cg using c rq
    by (auto split: sum.splits bool.splits)
  then show ?thesis
    using t by (auto simp: cache_set_trace split: sum.splits)
qed

lemma generate_email_world:
  "snd (generate_email cfg w first_name last_name domain) = snd (hunter_domain_search cfg w domain True)"
proof -
  obtain r w' where ds: "hunter_domain_search cfg w domain True = (r, w')"
    by (cases "hunter_domain_search cfg w domain True")
  have "snd (get_email_pattern cfg w domain) = w'"
    using ds by (simp add: get_email_pattern_def split: sum.splits)
  then have "snd (generate_email cfg w first_name last_name domain) = w'"
    by (cases "get_email_pattern cfg w domain")
       (simp add: generate_email_def split: sum.splits pyval.splits)
  then show ?thesis using ds by simp
qed

lemma fill_example: "fill_pattern ''{first}.{last}'' ''John'' ''Doe'' = ''john.doe''"
  by (simp add: fill_pattern_def py_string_defs)

lemma example_pattern_lookup:
  "fst (get_email_pattern (example_settings None (Some ''key''))
          (fresh_world (\<lambda>url params. HttpResponse 200
             (Some (PDict [(''data'', PDict [(''pattern'', PStr ''{first}.{last}'')])]))))
          ''acme.com'') = Inr (PStr ''{first}.{last}'')"
  by (simp add: get_email_pattern_def hunter_domain_search_def cache_get_def redis_get_def
      redis_live_def log_event_def fresh_world_def example_settings_def generate_key_def
      hunter_make_request_def hunter_base_url_def cache_set_def redis_setex_def
      dict_get_def ebind_def Let_def)

lemma example_pattern_calls:
  "trace (snd (get_email_pattern (example_settings None (Some ''key''))
          (fresh_world (\<lambda>url params. HttpResponse 200
             (Some (PDict [(''data'', PDict [(''pattern'', PStr ''{first}.{last}'')])]))))
          ''acme.com''))
     = [RedisGet ''cache:hunter:hunter_domain:acme.com'',
        HttpGet ''https://api.hunter.io/v2/domain-search''
          [(''domain'', PStr ''acme.com''), (''api_key'', PStr ''key'')],
        RedisSetex ''cache:hunter:hunter_domain:acme.com'' 604800]"
  by (simp add: get_email_pattern_def hunter_domain_search_def cache_get_def redis_get_def
      redis_live_def log_event_def fresh_world_def example_settings_def generate_key_def
      hunter_make_request_def hunter_base_url_def cache_set_def redis_setex_def
      dict_get_def ebind_def Let_def)

section \<open>C1: size fit of a record without an employee count\<close>

text \<open>
  C1 (as the claim states it, refuted): the record with every field absent gets no size-fit
  points and scores 0, not 5.
\<close>

theorem C1_empty_record_counterexample:
  "size_points [] = Inr 0 \<and> calculate_lead_score [] = Inr 0 \<and> calculate_lead_score [] \<noteq> Inr 5"
  by (simp add: calculate_lead_score_def size_points_def funding_points_def tech_points_def
      contact_points_def completeness_points_def required_fields_def dict_get_def ebind_def)

text \<open>
  C1 (amended): when \<open>employee_count\<close> is absent, \<open>None\<close> or zero, the guard
  \<open>if employee_count:\<close> skips the size-fit component, which contributes 0 points; the
  5-point bucket is reached only by a count above 1000. A record with every field absent
  scores exactly 0.
\<close>

theorem C1_size_fit_absent:
  "(\<not> truthy (dict_get company_data ''employee_count'' PNone) \<longrightarrow> size_points company_data = Inr 0)
   \<and> (map_of company_data ''employee_count'' = None \<longrightarrow> size_points company_data = Inr 0)
   \<and> (map_of company_data ''employee_count'' = Some (PInt n) \<longrightarrow>
        (size_points company_data = Inr 5 \<longleftrightarrow> n > 1000))
   \<and> calculate_lead_score [] = Inr 0"
proof -
  have absent: "\<not> truthy (dict_get company_data ''employee_count'' PNone) \<longrightarrow>
      size_points company_data = Inr 0"
    by (simp add: size_points_def)
  have missing: "map_of company_data ''employee_count'' = None \<longrightarrow>
      size_points company_data = Inr 0"
    by (simp add: size_points_def dict_get_def)
  have five: "map_of company_data ''employee_count'' = Some (PInt n) \<longrightarrow>
      (size_points company_data = Inr 5 \<longleftrightarrow> n > 1000)"
    by (auto simp add: size_points_def dict_get_def ebind_def)
  have empty: "calculate_lead_score [] = Inr 0"
    by (simp add: calculate_lead_score_def size_points_def funding_points_def tech_points_def
        contact_points_def completeness_points_def required_fields_def dict_get_def ebind_def)
  from absent missing five empty show ?thesis by blast
qed

theorem C1_size_fit_absent_witness:
  "map_of [(''name'', PStr ''Acme'')] ''employee_count'' = None
   \<and> size_points [(''name'', PStr ''Acme'')] = Inr 0
   \<and> map_of [(''employee_count'', PInt 2000)] ''employee_count'' = Some (PInt 2000)
   \<and> size_points [(''employee_count'', PInt 2000)] = Inr 5"
  using C1_size_fit_absent [of "[(''name'', PStr ''Acme'')]" 0]
    C1_size_fit_absent [of "[(''employee_count'', PInt 2000)]" 2000]
  by (simp add: dict_get_def)

section \<open>C3: deduplication keeps the first contact seen under each key\<close>

text \<open>
  C3. Deduplication goes through the contacts in the order of the concatenated input. The
  empty list gives the empty list. A contact \<open>c\<close> that follows the contacts \<open>earlier\<close> is
  appended, unchanged, to what was kept of \<open>earlier\<close> exactly when it is first seen there:
  its lower-cased email is not empty and no earlier contact has it, or it has no email and
  its lower-cased, trimmed "first last" name is not empty and no earlier contact without
  an email has it. Otherwise it is dropped, so the first contact seen under a key stays
  and later ones are discarded, never merged. (Reading the email of a contact whose email
  field is not a string raises, and the exception is the result of the whole step.) The
  email key of a contact is its \<open>email\<close> string in lower case, empty when the field is
  missing; the name key is \<open>first_name\<close>, a space and \<open>last_name\<close> (each empty when
  missing), in lower case and without surrounding whitespace. The three contacts of the
  example give the first-seen "A" and "B"; of three contacts without email named
  "Ann Lee", "Bob Ray" and "ANN Lee " the first two are kept.
\<close>

theorem C3_dedup_first_seen_wins:
  "deduplicate_contacts [] = Inr []
   \<and> deduplicate_contacts (earlier @ [c]) =
       ebind (deduplicate_contacts earlier) (\<lambda>kept.
         ebind (contact_email c) (\<lambda>email.
           Inr (if first_seen earlier c then kept @ [c] else kept)))
   \<and> (first_seen earlier c \<longleftrightarrow>
         (if email_key c \<noteq> []
          then email_key c \<notin> set (map email_key earlier)
          else contact_name c \<noteq> []
               \<and> contact_name c
                   \<notin> set (map contact_name (filter (\<lambda>c. email_key c = []) earlier))))
   \<and> (map_of c ''email'' = None \<longrightarrow> email_key c = [])
   \<and> (map_of c ''email'' = Some (PStr e) \<longrightarrow> email_key c = map py_lower_char e)
   \<and> contact_name c =
        py_strip (map py_lower_char
          ((case map_of c ''first_name'' of None \<Rightarrow> [] | Some (PStr f) \<Rightarrow> f | Some v \<Rightarrow> py_repr v)
           @ '' ''
           @ (case map_of c ''last_name'' of None \<Rightarrow> [] | Some (PStr l) \<Rightarrow> l | Some v \<Rightarrow> py_repr v)))
   \<and> deduplicate_contacts
        [[(''email'', PStr ''a@x.com''), (''name'', PStr ''A'')],
         [(''email'', PStr ''A@X.COM''), (''name'', PStr ''A2'')],
         [(''email'', PStr ''b@x.com''), (''name'', PStr ''B'')]]
      = Inr [[(''email'', PStr ''a@x.com''), (''name'', PStr ''A'')],
             [(''email'', PStr ''b@x.com''), (''name'', PStr ''B'')]]
   \<and> deduplicate_contacts
        [[(''first_name'', PStr ''Ann''), (''last_name'', PStr ''Lee'')],
         [(''first_name'', PStr ''Bob''), (''last_name'', PStr ''Ray'')],
         [(''first_name'', PStr ''ANN''), (''last_name'', PStr ''Lee '')]]
      = Inr [[(''first_name'', PStr ''Ann''), (''last_name'', PStr ''Lee'')],
             [(''first_name'', PStr ''Bob''), (''last_name'', PStr ''Ray'')]]"
proof -
  have empty: "deduplicate_contacts [] = Inr []"
    by (simp add: deduplicate_contacts_def)
  have seen: "first_seen earlier c \<longleftrightarrow>
         (if email_key c \<noteq> []
          then email_key c \<notin> set (map email_key earlier)
          else contact_name c \<noteq> []
               \<and> contact_name c
                   \<notin> set (map contact_name (filter (\<lambda>c. email_key c = []) earlier)))"
    by (simp add: first_seen_def)
  have no_email: "map_of c ''email'' = None \<longrightarrow> email_key c = []"
    by (simp add: email_key_def contact_email_def dict_get_def py_lower_def)
  have email: "map_of c ''email'' = Some (PStr e) \<longrightarrow> email_key c = map py_lower_char e"
    by (simp add: email_key_def contact_email_def dict_get_def py_lower_def)
  have name: "contact_name c =
        py_strip (map py_lower_char
          ((case map_of c ''first_name'' of None \<Rightarrow> [] | Some (PStr f) \<Rightarrow> f | Some v \<Rightarrow> py_repr v)
           @ '' ''
           @ (case map_of c ''last_name'' of None \<Rightarrow> [] | Some (PStr l) \<Rightarrow> l | Some v \<Rightarrow> py_repr v)))"
    by (simp add: contact_name_def dict_get_def py_lower_def split: option.splits pyval.splits)
  show ?thesis
    using empty dedup_snoc [of earlier c] seen no_email email name dedup_example
      dedup_names_example
    by simp
qed

theorem C3_dedup_first_seen_wins_witness:
  "deduplicate_contacts
        ([[(''email'', PStr ''a@x.com''), (''name'', PStr ''A'')]]
         @ [[(''email'', PStr ''A@X.COM''), (''name'', PStr ''A2'')]])
      = Inr [[(''email'', PStr ''a@x.com''), (''name'', PStr ''A'')]]
   \<and> deduplicate_contacts
        ([[(''first_name'', PStr ''Ann''), (''last_name'', PStr ''Lee'')]]
         @ [[(''first_name'', PStr ''Bob''), (''last_name'', PStr ''Ray'')]])
      = Inr [[(''first_name'', PStr ''Ann''), (''last_name'', PStr ''Lee'')],
             [(''first_name'', PStr ''Bob''), (''last_name'', PStr ''Ray'')]]
   \<and> deduplicate_contacts
        ([[(''first_name'', PStr ''Ann''), (''last_name'', PStr ''Lee'')]]
         @ [[(''first_name'', PStr ''ANN''), (''last_name'', PStr ''Lee '')]])
      = Inr [[(''first_name'', PStr ''Ann''), (''last_name'', PStr ''Lee'')]]
   \<and> contact_name [(''first_name'', PStr ''ANN''), (''last_name'', PStr ''Lee '')] = ''ann lee''
   \<and> contact_name [(''first_name'', PStr ''Bob''), (''last_name'', PStr ''Ray'')] = ''bob ray''"
proof -
  let ?a = "[(''email'', PStr ''a@x.com''), (''name'', PStr ''A'')]"
  let ?a2 = "[(''email'', PStr ''A@X.COM''), (''name'', PStr ''A2'')]"
  let ?ann = "[(''first_name'', PStr ''Ann''), (''last_name'', PStr ''Lee'')]"
  let ?bob = "[(''first_name'', PStr ''Bob''), (''last_name'', PStr ''Ray'')]"
  let ?ann2 = "[(''first_name'', PStr ''ANN''), (''last_name'', PStr ''Lee '')]"
  note keys = C3_dedup_first_seen_wins [of "[]" ?ann2 "[]"] C3_dedup_first_seen_wins [of "[]" ?bob "[]"]
      C3_dedup_first_seen_wins [of "[]" ?ann "[]"]
  have name_ann2: "contact_name ?ann2 = ''ann lee''"
    using keys(1) by (simp add: py_strip_def py_isspace_def py_lower_char_def char_of_def bit_Suc_0_iff)
  have name_bob: "contact_name ?bob = ''bob ray''"
    using keys(2) by (simp add: py_strip_def py_isspace_def py_lower_char_def char_of_def bit_Suc_0_iff)
  have name_ann: "contact_name ?ann = ''ann lee''"
    using keys(3) by (simp add: py_strip_def py_isspace_def py_lower_char_def char_of_def bit_Suc_0_iff)
  have no_email: "email_key ?ann = []" "email_key ?bob = []" "email_key ?ann2 = []"
    using C3_dedup_first_seen_wins [of "[]" ?ann "[]"] C3_dedup_first_seen_wins [of "[]" ?bob "[]"]
      C3_dedup_first_seen_wins [of "[]" ?ann2 "[]"]
    by simp_all
  have email_a: "email_key ?a = ''a@x.com''"
    using C3_dedup_first_seen_wins [of "[]" ?a "''a@x.com''"]
    by (simp add: py_lower_char_def char_of_def bit_Suc_0_iff)
  have email_a2: "email_key ?a2 = ''a@x.com''"
    using C3_dedup_first_seen_wins [of "[]" ?a2 "''A@X.COM''"]
    by (simp add: py_lower_char_def char_of_def bit_Suc_0_iff)
  have ce: "contact_email ?a2 = Inr ''a@x.com''" "contact_email ?bob = Inr []"
      "contact_email ?ann2 = Inr []"
    by (simp_all add: contact_email_def dict_get_def py_string_defs)
  have one_a: "deduplicate_contacts [?a] = Inr [?a]"
    by (simp add: deduplicate_contacts_def contact_email_def contact_name_def dict_get_def
        py_string_defs)
  have one_ann: "deduplicate_contacts [?ann] = Inr [?ann]"
    by (simp add: deduplicate_contacts_def contact_email_def contact_name_def dict_get_def
        py_string_defs)
  have seen_a2: "first_seen [?a] ?a2 = False"
    using C3_dedup_first_seen_wins [of "[?a]" ?a2 "[]"] email_a email_a2 by simp
  have seen_bob: "first_seen [?ann] ?bob = True"
    using C3_dedup_first_seen_wins [of "[?ann]" ?bob "[]"] no_email name_ann name_bob by simp
  have seen_ann2: "first_seen [?ann] ?ann2 = False"
    using C3_dedup_first_seen_wins [of "[?ann]" ?ann2 "[]"] no_email name_ann name_ann2 by simp
  have r1: "deduplicate_contacts ([?a] @ [?a2]) = Inr [?a]"
    using C3_dedup_first_seen_wins [of "[?a]" ?a2 "[]"]
    by (simp only: one_a seen_a2 ce ebind_def sum.case if_False)
  have r2: "deduplicate_contacts ([?ann] @ [?bob]) = Inr [?ann, ?bob]"
    using C3_dedup_first_seen_wins [of "[?ann]" ?bob "[]"]
    by (simp only: one_ann seen_bob ce ebind_def sum.case if_True append.simps)
  have r3: "deduplicate_contacts ([?ann] @ [?ann2]) = Inr [?ann]"
    using C3_dedup_first_seen_wins [of "[?ann]" ?ann2 "[]"]
    by (simp only: one_ann seen_ann2 ce ebind_def sum.case if_False)
  from r1 r2 r3 name_ann2 name_bob show ?thesis by blast
qed

section \<open>C6: no two kept contacts share an email\<close>

text \<open>
  C6. In the list that deduplication produces, the non-empty emails, compared after
  lower-casing, are pairwise different, and so are the normalized full names of the contacts
  that have no email; every contact of the list is one of the input.
\<close>

theorem C6_no_shared_email:
  "deduplicate_contacts contacts = Inr out \<Longrightarrow>
     distinct (email_keys_of out) \<and> distinct (name_keys_of out) \<and> set out \<subseteq> set contacts"
proof -
  assume run: "deduplicate_contacts contacts = Inr out"
  then have loop: "dedup_loop contacts {} {} [] = Inr out"
    by (simp add: deduplicate_contacts_def)
  have "distinct (email_keys_of out) \<and> distinct (name_keys_of out)"
    by (rule dedup_loop_distinct [OF loop]) (simp_all add: email_keys_of_def name_keys_of_def)
  moreover have "set out \<subseteq> set contacts"
    using dedup_loop_subset [OF loop] by simp
  ultimately show ?thesis by simp
qed

theorem C6_no_shared_email_witness:
  "deduplicate_contacts
     [[(''email'', PStr ''a@x.com''), (''first_name'', PStr ''Ann'')],
      [(''email'', PStr ''A@X.com''), (''first_name'', PStr ''Anna'')],
      [(''first_name'', PStr ''Bo''), (''last_name'', PStr ''Li'')],
      [(''first_name'', PStr ''BO''), (''last_name'', PStr ''LI '')]]
   = Inr [[(''email'', PStr ''a@x.com''), (''first_name'', PStr ''Ann'')],
          [(''first_name'', PStr ''Bo''), (''last_name'', PStr ''Li'')]]
   \<and> distinct (email_keys_of [[(''email'', PStr ''a@x.com''), (''first_name'', PStr ''Ann'')],
          [(''first_name'', PStr ''Bo''), (''last_name'', PStr ''Li'')]])
   \<and> distinct (name_keys_of [[(''email'', PStr ''a@x.com''), (''first_name'', PStr ''Ann'')],
          [(''first_name'', PStr ''Bo''), (''last_name'', PStr ''Li'')]])"
proof -
  have run: "deduplicate_contacts
     [[(''email'', PStr ''a@x.com''), (''first_name'', PStr ''Ann'')],
      [(''email'', PStr ''A@X.com''), (''first_name'', PStr ''Anna'')],
      [(''first_name'', PStr ''Bo''), (''last_name'', PStr ''Li'')],
      [(''first_name'', PStr ''BO''), (''last_name'', PStr ''LI '')]]
   = Inr [[(''email'', PStr ''a@x.com''), (''first_name'', PStr ''Ann'')],
          [(''first_name'', PStr ''Bo''), (''last_name'', PStr ''Li'')]]"
    by (simp add: deduplicate_contacts_def contact_email_def contact_name_def dict_get_def
        py_string_defs)
  from C6_no_shared_email [OF run] run show ?thesis by blast
qed

section \<open>C9: when deduplication raises\<close>

text \<open>
  C9. Deduplication returns a list exactly when the email field of every contact is absent
  or a string; on any other input it raises \<open>AttributeError\<close> (\<open>lower\<close> on a value that
  is not a string). The email-discovery source can produce such a contact: an entry of
  \<open>data["emails"]\<close> without a \<open>value\<close> gives a contact whose email is \<open>None\<close>, and the
  step fails on it.
\<close>

theorem C9_dedup_raises_iff:
  "((\<exists>out. deduplicate_contacts contacts = Inr out) \<longleftrightarrow> list_all email_is_string contacts)
   \<and> (\<not> list_all email_is_string contacts \<longrightarrow>
        deduplicate_contacts contacts = Inl AttributeError)
   \<and> (map_of entry ''value'' = None \<longrightarrow>
        (\<exists>c. contacts_of_data (PDict [(''emails'', PList [PDict entry])]) 10 = Inr [c]
             \<and> map_of c ''email'' = Some PNone
             \<and> deduplicate_contacts [c] = Inl AttributeError))"
proof -
  have returns: "(\<exists>out. deduplicate_contacts contacts = Inr out)
      \<longleftrightarrow> list_all email_is_string contacts"
    unfolding deduplicate_contacts_def by (rule dedup_loop_returns)
  have raises: "\<not> list_all email_is_string contacts \<longrightarrow>
      deduplicate_contacts contacts = Inl AttributeError"
  proof
    assume bad: "\<not> list_all email_is_string contacts"
    then have "\<not> (\<exists>out. deduplicate_contacts contacts = Inr out)"
      using returns by simp
    then obtain e where e: "deduplicate_contacts contacts = Inl e"
      by (cases "deduplicate_contacts contacts") auto
    then have "e = AttributeError"
      unfolding deduplicate_contacts_def by (rule dedup_loop_error)
    with e show "deduplicate_contacts contacts = Inl AttributeError" by simp
  qed
  have source: "map_of entry ''value'' = None \<longrightarrow>
        (\<exists>c. contacts_of_data (PDict [(''emails'', PList [PDict entry])]) 10 = Inr [c]
             \<and> map_of c ''email'' = Some PNone
             \<and> deduplicate_contacts [c] = Inl AttributeError)"
    by (simp add: contacts_of_data_def py_slice_to_def hunter_contact_def ebind_def dict_get_def
        deduplicate_contacts_def contact_email_def)
  from returns raises source show ?thesis by blast
qed

theorem C9_dedup_raises_iff_witness:
  "list_all email_is_string [[(''email'', PStr ''a@x.com'')], [(''first_name'', PStr ''Bo'')]]
   \<and> deduplicate_contacts [[(''email'', PStr ''a@x.com'')], [(''first_name'', PStr ''Bo'')]]
       = Inr [[(''email'', PStr ''a@x.com'')], [(''first_name'', PStr ''Bo'')]]
   \<and> \<not> list_all email_is_string [[(''email'', PStr ''a@x.com'')], [(''email'', PNone)]]
   \<and> deduplicate_contacts [[(''email'', PStr ''a@x.com'')], [(''email'', PNone)]]
       = Inl AttributeError
   \<and> map_of [(''first_name'', PStr ''Bo'')] ''value'' = None"
proof -
  have ok: "list_all email_is_string
      [[(''email'', PStr ''a@x.com'')], [(''first_name'', PStr ''Bo'')]]"
    by (simp add: email_is_string_def)
  have bad: "\<not> list_all email_is_string [[(''email'', PStr ''a@x.com'')], [(''email'', PNone)]]"
    by (simp add: email_is_string_def)
  have run: "deduplicate_contacts [[(''email'', PStr ''a@x.com'')], [(''first_name'', PStr ''Bo'')]]
       = Inr [[(''email'', PStr ''a@x.com'')], [(''first_name'', PStr ''Bo'')]]"
    by (simp add: deduplicate_contacts_def contact_email_def contact_name_def dict_get_def
        py_string_defs)
  have raise: "deduplicate_contacts [[(''email'', PStr ''a@x.com'')], [(''email'', PNone)]]
       = Inl AttributeError"
    using C9_dedup_raises_iff [of "[[(''email'', PStr ''a@x.com'')], [(''email'', PNone)]]"
        "[(''first_name'', PStr ''Bo'')]"] bad
    by blast
  from ok run bad raise show ?thesis by simp
qed

section \<open>C4: contacts without email and name are dropped\<close>

text \<open>
  C4. A contact whose \<open>email\<close>, \<open>first_name\<close> and \<open>last_name\<close> are each absent or the
  empty string is never in the output of deduplication, and the output is what it would
  be without that contact. The employee records of the mock scraper have none of the three
  fields (only a combined \<open>name\<close>), so \<open>collect_contacts\<close> returns the deduplicated
  email-discovery contacts, cut to \<open>limit\<close>, and nothing else.
\<close>

theorem C4_nameless_contacts_dropped:
  "(nameless c \<and> deduplicate_contacts contacts = Inr out \<longrightarrow> c \<notin> set out)
   \<and> (nameless c \<longrightarrow> deduplicate_contacts (xs @ c # ys) = deduplicate_contacts (xs @ ys))
   \<and> list_all nameless (mock_scrape_company_employees scraped_at company_name limit use_cache)
   \<and> collect_contacts cfg (mock_linkedin_scraper scraped_at) w company_name domain limit use_cache
       = (if configured (hunter_api_key cfg) then
            (case get_contacts cfg w domain limit of
               (Inl e, w') \<Rightarrow> (Inr [], w')
             | (Inr hunter_contacts, w') \<Rightarrow>
                 (ebind (deduplicate_contacts hunter_contacts)
                    (\<lambda>contacts. Inr (py_slice_to contacts limit)), w'))
          else (Inr [], w))"
proof -
  have never: "nameless c \<and> deduplicate_contacts contacts = Inr out \<longrightarrow> c \<notin> set out"
    unfolding deduplicate_contacts_def
    using dedup_loop_never_keeps_nameless [of contacts "{}" "{}" "[]" out c] by simp
  have skip: "nameless c \<longrightarrow> deduplicate_contacts (xs @ c # ys) = deduplicate_contacts (xs @ ys)"
    by (simp add: dedup_drop_nameless_anywhere)
  let ?ls = "mock_scrape_company_employees scraped_at company_name limit use_cache"
  have mock: "list_all nameless ?ls"
    by (rule mock_employees_nameless)
  have only_mock: "deduplicate_contacts ?ls = Inr []"
    using dedup_loop_drop_all_nameless [OF mock, of "[]" "{}" "{}" "[]"]
    by (simp add: deduplicate_contacts_def)
  have with_hunter: "deduplicate_contacts (?ls @ hs) = deduplicate_contacts hs" for hs
    using dedup_loop_drop_all_nameless [OF mock, of hs "{}" "{}" "[]"]
    by (simp add: deduplicate_contacts_def)
  have collect: "collect_contacts cfg (mock_linkedin_scraper scraped_at) w company_name domain
        limit use_cache
       = (if configured (hunter_api_key cfg) then
            (case get_contacts cfg w domain limit of
               (Inl e, w') \<Rightarrow> (Inr [], w')
             | (Inr hunter_contacts, w') \<Rightarrow>
                 (ebind (deduplicate_contacts hunter_contacts)
                    (\<lambda>contacts. Inr (py_slice_to contacts limit)), w'))
          else (Inr [], w))"
    by (simp add: collect_contacts_def mock_linkedin_scraper_def only_mock with_hunter ebind_def
        py_slice_to_def split: prod.splits sum.splits)
  from never skip mock collect show ?thesis by blast
qed

theorem C4_nameless_contacts_dropped_witness:
  "nameless [(''name'', PStr ''Person 1''), (''title'', PStr ''Chief Executive Officer'')]
   \<and> deduplicate_contacts
        ([[(''email'', PStr ''ann@acme.com'')]]
         @ [(''name'', PStr ''Person 1''), (''title'', PStr ''Chief Executive Officer'')] # [])
       = Inr [[(''email'', PStr ''ann@acme.com'')]]
   \<and> fst (collect_contacts (example_settings None (Some ''key''))
        (mock_linkedin_scraper (\<lambda>i. PNone))
        (fresh_world (\<lambda>url params. HttpResponse 200 (Some (PDict [(''data'',
            PDict [(''emails'', PList [PDict [(''value'', PStr ''ann@acme.com'')]])])]))))
        ''Acme'' ''acme.com'' 3 False)
     = Inr [[(''email'', PStr ''ann@acme.com''), (''first_name'', PNone), (''last_name'', PNone),
             (''position'', PNone), (''department'', PNone), (''seniority'', PNone),
             (''confidence'', PNone), (''linkedin'', PNone), (''twitter'', PNone),
             (''phone_number'', PNone)]]"
proof -
  let ?c = "[(''name'', PStr ''Person 1''), (''title'', PStr ''Chief Executive Officer'')]"
  let ?cfg = "example_settings None (Some ''key'')"
  let ?w = "fresh_world (\<lambda>url params. HttpResponse 200 (Some (PDict [(''data'',
            PDict [(''emails'', PList [PDict [(''value'', PStr ''ann@acme.com'')]])])])))"
  have n: "nameless ?c"
    by (simp add: nameless_def blank_field_def)
  have one: "deduplicate_contacts ([[(''email'', PStr ''ann@acme.com'')]] @ []) =
      Inr [[(''email'', PStr ''ann@acme.com'')]]"
    by (simp add: deduplicate_contacts_def contact_email_def contact_name_def dict_get_def
        py_string_defs)
  have a: "deduplicate_contacts ([[(''email'', PStr ''ann@acme.com'')]] @ ?c # [])
       = Inr [[(''email'', PStr ''ann@acme.com'')]]"
    using C4_nameless_contacts_dropped [of ?c "[]" "[]" "[[(''email'', PStr ''ann@acme.com'')]]" "[]"]
      n one by simp
  have key: "configured (hunter_api_key ?cfg)"
    by (simp add: configured_def example_settings_def)
  have got: "fst (get_contacts ?cfg ?w ''acme.com'' 3)
      = Inr [[(''email'', PStr ''ann@acme.com''), (''first_name'', PNone), (''last_name'', PNone),
             (''position'', PNone), (''department'', PNone), (''seniority'', PNone),
             (''confidence'', PNone), (''linkedin'', PNone), (''twitter'', PNone),
             (''phone_number'', PNone)]]"
    by (simp add: get_contacts_def hunter_domain_search_def cache_get_def redis_get_def
        redis_live_def log_event_def fresh_world_def example_settings_def generate_key_def
        hunter_make_request_def hunter_base_url_def cache_set_def redis_setex_def
        contacts_of_data_def py_slice_to_def hunter_contact_def dict_get_def ebind_def Let_def)
  have dd: "deduplicate_contacts
      [[(''email'', PStr ''ann@acme.com''), (''first_name'', PNone), (''last_name'', PNone),
             (''position'', PNone), (''department'', PNone), (''seniority'', PNone),
             (''confidence'', PNone), (''linkedin'', PNone), (''twitter'', PNone),
             (''phone_number'', PNone)]]
    = Inr [[(''email'', PStr ''ann@acme.com''), (''first_name'', PNone), (''last_name'', PNone),
             (''position'', PNone), (''department'', PNone), (''seniority'', PNone),
             (''confidence'', PNone), (''linkedin'', PNone), (''twitter'', PNone),
             (''phone_number'', PNone)]]"
    by (simp add: deduplicate_contacts_def contact_email_def contact_name_def dict_get_def
        py_string_defs)
  have b: "fst (collect_contacts ?cfg (mock_linkedin_scraper (\<lambda>i. PNone)) ?w
        ''Acme'' ''acme.com'' 3 False)
     = Inr [[(''email'', PStr ''ann@acme.com''), (''first_name'', PNone), (''last_name'', PNone),
             (''position'', PNone), (''department'', PNone), (''seniority'', PNone),
             (''confidence'', PNone), (''linkedin'', PNone), (''twitter'', PNone),
             (''phone_number'', PNone)]]"
    using C4_nameless_contacts_dropped [of ?c "[]" "[]" "[]" "[]" "\<lambda>i. PNone" "''Acme''" 3 False
        ?cfg ?w "''acme.com''"] key got dd
    by (cases "get_contacts ?cfg ?w ''acme.com'' 3") (auto simp: ebind_def py_slice_to_def)
  from n a b show ?thesis by blast
qed

section \<open>C2: merge precedence\<close>

text \<open>
  C2 (as the claim states it, refuted). The firmographic source gives the company the
  LinkedIn handle \<open>company/acme\<close> and an employee count of 0, both not null; the scraped
  profile gives its own \<open>linkedin_url\<close> and the count 150. The merged record takes the
  scraped \<open>linkedin_url\<close> and the scraped count.
\<close>

theorem C2_linkedin_url_counterexample:
  "ebind (extract_company_info (PDict [(''name'', PStr ''Acme''),
              (''linkedin'', PDict [(''handle'', PStr ''company/acme'')]),
              (''metrics'', PDict [(''employees'', PInt 0)])]))
         (\<lambda>info. Inr (dict_get info ''linkedin_url'' PNone, dict_get info ''employee_count'' PNone))
     = Inr (PStr ''company/acme'', PInt 0)
   \<and> (case fst (collect_company_data (example_settings (Some ''key'') None)
          (mock_linkedin_scraper (\<lambda>i. PNone))
          (fresh_world (\<lambda>url params. HttpResponse 200 (Some (PDict [(''name'', PStr ''Acme''),
              (''linkedin'', PDict [(''handle'', PStr ''company/acme'')]),
              (''metrics'', PDict [(''employees'', PInt 0)])]))))
          (Some ''Acme'') (Some ''acme.com'') False) of
        Inl e \<Rightarrow> None
      | Inr result \<Rightarrow> Some (map_of (aggregated_data result) ''linkedin_url'',
                            map_of (aggregated_data result) ''employee_count''))
     = Some (Some (PStr ''https://www.linkedin.com/company/acme/''), Some (PInt 150))"
  by code_simp

text \<open>
  C2 (amended). In the record produced by \<open>collect_company_data\<close>, when the scraped
  profile returned data, each of \<open>name\<close>, \<open>description\<close>, \<open>industry\<close>,
  \<open>employee_count\<close> and \<open>website\<close> is \<open>firmographic or scraped\<close>: the firmographic
  value when it is truthy (not null, not empty, not zero), and the scraped value otherwise;
  \<open>linkedin_url\<close> is always the scraped profile's. The firmographic value of a field is
  the one normalised from the Clearbit payload; the source provides no field at all when it
  returned nothing or when its payload cannot be normalised (the exception is caught), and
  then the scraped values are used. Without scraped data the fields are the firmographic
  ones. With firmographic industry "Fintech" and scraped industry "Banking" the merged
  industry is "Fintech".
\<close>

theorem C2_merge_precedence:
  assumes run: "collect_company_data cfg linkedin w company_name domain use_cache = (Inr result, w')"
    and field: "field \<in> set [''name'', ''description'', ''industry'', ''employee_count'', ''website'']"
  shows "(truthy (linkedin_data result) \<longrightarrow>
           (\<exists>scraped. linkedin_data result = PDict scraped
              \<and> map_of (aggregated_data result) field
                   = Some (py_or (dict_get (firmographic_fields result) field PNone)
                                 (dict_get scraped field PNone))
              \<and> (truthy (dict_get (firmographic_fields result) field PNone) \<longrightarrow>
                   map_of (aggregated_data result) field
                     = Some (dict_get (firmographic_fields result) field PNone))
              \<and> (\<not> truthy (dict_get (firmographic_fields result) field PNone) \<longrightarrow>
                   map_of (aggregated_data result) field = Some (dict_get scraped field PNone))
              \<and> map_of (aggregated_data result) ''linkedin_url''
                   = Some (dict_get scraped ''linkedin_url'' PNone)))
         \<and> (\<not> truthy (linkedin_data result) \<longrightarrow>
              map_of (aggregated_data result) field = map_of (firmographic_fields result) field
              \<and> map_of (aggregated_data result) ''linkedin_url''
                   = map_of (firmographic_fields result) ''linkedin_url'')"
proof -
  from run obtain r1 w1 r2 w2 r3 merged where
    s1: "linkedin_step linkedin company_name use_cache
       (\<lparr> collected_at = utcnow_isoformat w, res_company_name = opt_str company_name,
          res_domain = opt_str domain, linkedin_data = PNone, clearbit_data = PNone,
          hunter_data = PNone, aggregated_data = [] \<rparr>, w) = (r1, w1)"
    and s2: "clearbit_step cfg domain use_cache (r1, w1) = (r2, w2)"
    and s3: "hunter_step cfg domain use_cache (r2, w2) = (r3, w')"
    and m: "merge_company_data r3 = Inr merged"
    and res: "result = r3\<lparr>aggregated_data := merged\<rparr>"
    by (rule collect_company_data_steps)
  have f1: "clearbit_data r1 = PNone" "aggregated_data r1 = []"
    using linkedin_step_fields [OF s1] by simp_all
  have cb3: "clearbit_data r3 = clearbit_data r2"
    using hunter_step_fields [OF s3] by simp
  have firm: "firmographic_fields result = firmographic_fields r2"
    using res cb3 by (simp add: firmographic_fields_def)
  have lir: "linkedin_data result = linkedin_data r3" and agg: "aggregated_data result = merged"
    using res by simp_all
  have agg2: "aggregated_data r2 = dict_update [] (firmographic_fields r2)"
    using clearbit_step_fields [OF s2] f1 by simp
  have map2: "map_of (aggregated_data r2) = map_of (firmographic_fields r2)"
    using dict_update_map_of [OF firmographic_fields_distinct, of "[]" r2] agg2 by simp
  have not_hunter: "field \<noteq> ''email_pattern''" "field \<noteq> ''total_emails_found''"
      "field \<noteq> ''sources_used''"
    using field by auto
  have agg3: "map_of (aggregated_data r3) field = map_of (firmographic_fields result) field"
    using hunter_step_fields [OF s3, of field] not_hunter map2 firm by simp
  have url3: "map_of (aggregated_data r3) ''linkedin_url''
      = map_of (firmographic_fields result) ''linkedin_url''"
    using hunter_step_fields [OF s3, of "''linkedin_url''"] map2 firm by simp
  have get3: "dict_get (aggregated_data r3) field PNone
      = dict_get (firmographic_fields result) field PNone"
    using agg3 by (simp add: dict_get_def)
  have scraped_case: "truthy (linkedin_data result) \<longrightarrow>
           (\<exists>scraped. linkedin_data result = PDict scraped
              \<and> map_of (aggregated_data result) field
                   = Some (py_or (dict_get (firmographic_fields result) field PNone)
                                 (dict_get scraped field PNone))
              \<and> (truthy (dict_get (firmographic_fields result) field PNone) \<longrightarrow>
                   map_of (aggregated_data result) field
                     = Some (dict_get (firmographic_fields result) field PNone))
              \<and> (\<not> truthy (dict_get (firmographic_fields result) field PNone) \<longrightarrow>
                   map_of (aggregated_data result) field = Some (dict_get scraped field PNone))
              \<and> map_of (aggregated_data result) ''linkedin_url''
                   = Some (dict_get scraped ''linkedin_url'' PNone))"
  proof
    assume "truthy (linkedin_data result)"
    then have t3: "truthy (linkedin_data r3)" using lir by simp
    then obtain scraped where sc: "linkedin_data r3 = PDict scraped" "scraped \<noteq> []"
      using merge_company_data_truthy [OF m] by blast
    have both: "map_of merged field
           = Some (py_or (dict_get (aggregated_data r3) field PNone) (dict_get scraped field PNone))
        \<and> map_of merged ''linkedin_url'' = Some (dict_get scraped ''linkedin_url'' PNone)"
      using merge_company_data_scraped [OF sc m, of field] field by blast
    then have main: "map_of (aggregated_data result) field
           = Some (py_or (dict_get (firmographic_fields result) field PNone)
                         (dict_get scraped field PNone))"
        and url: "map_of (aggregated_data result) ''linkedin_url''
           = Some (dict_get scraped ''linkedin_url'' PNone)"
      using get3 agg by simp_all
    show "\<exists>scraped. linkedin_data result = PDict scraped
              \<and> map_of (aggregated_data result) field
                   = Some (py_or (dict_get (firmographic_fields result) field PNone)
                                 (dict_get scraped field PNone))
              \<and> (truthy (dict_get (firmographic_fields result) field PNone) \<longrightarrow>
                   map_of (aggregated_data result) field
                     = Some (dict_get (firmographic_fields result) field PNone))
              \<and> (\<not> truthy (dict_get (firmographic_fields result) field PNone) \<longrightarrow>
                   map_of (aggregated_data result) field = Some (dict_get scraped field PNone))
              \<and> map_of (aggregated_data result) ''linkedin_url''
                   = Some (dict_get scraped ''linkedin_url'' PNone)"
      using sc(1) lir main url by (auto simp: py_or_def)
  qed
  have unscraped_case: "\<not> truthy (linkedin_data result) \<longrightarrow>
              map_of (aggregated_data result) field = map_of (firmographic_fields result) field
              \<and> map_of (aggregated_data result) ''linkedin_url''
                   = map_of (firmographic_fields result) ''linkedin_url''"
  proof
    assume "\<not> truthy (linkedin_data result)"
    then have f3: "\<not> truthy (linkedin_data r3)" using lir by simp
    have "map_of merged field = map_of (aggregated_data r3) field"
      using merge_company_data_unscraped [OF m f3, of field] not_hunter by simp
    moreover have "map_of merged ''linkedin_url'' = map_of (aggregated_data r3) ''linkedin_url''"
      using merge_company_data_unscraped [OF m f3, of "''linkedin_url''"] by simp
    ultimately show "map_of (aggregated_data result) field
          = map_of (firmographic_fields result) field
        \<and> map_of (aggregated_data result) ''linkedin_url''
          = map_of (firmographic_fields result) ''linkedin_url''"
      using agg agg3 url3 by simp
  qed
  from scraped_case unscraped_case show ?thesis by blast
qed

theorem C2_merge_precedence_witness:
  "map_of (aggregated_data (projr (fst (collect_company_data (example_settings (Some ''key'') None)
        (constant_scraper (PDict [(''industry'', PStr ''Banking''), (''website'', PStr ''example.com'')]))
        (fresh_world (\<lambda>url params. HttpResponse 200
            (Some (PDict [(''category'', PDict [(''industry'', PStr ''Fintech'')])]))))
        (Some ''Acme'') (Some ''acme.com'') False)))) ''industry''
     = Some (PStr ''Fintech'')
   \<and> map_of (aggregated_data (projr (fst (collect_company_data (example_settings (Some ''key'') None)
        (constant_scraper (PDict [(''industry'', PStr ''Banking''), (''website'', PStr ''example.com'')]))
        (fresh_world (\<lambda>url params. HttpResponse 200
            (Some (PDict [(''category'', PDict [(''industry'', PStr ''Fintech'')])]))))
        (Some ''Acme'') (Some ''acme.com'') False)))) ''website''
     = Some (PStr ''example.com'')
   \<and> truthy (clearbit_data (projr (fst (collect_company_data (example_settings (Some ''key'') None)
        (constant_scraper (PDict [(''name'', PStr ''Acme'')]))
        (fresh_world (\<lambda>url params. HttpResponse 200
            (Some (PDict [(''name'', PStr ''Acme Inc''), (''category'', PNone)]))))
        (Some ''Acme'') (Some ''acme.com'') False))))
   \<and> map_of (aggregated_data (projr (fst (collect_company_data (example_settings (Some ''key'') None)
        (constant_scraper (PDict [(''name'', PStr ''Acme'')]))
        (fresh_world (\<lambda>url params. HttpResponse 200
            (Some (PDict [(''name'', PStr ''Acme Inc''), (''category'', PNone)]))))
        (Some ''Acme'') (Some ''acme.com'') False)))) ''name''
     = Some (PStr ''Acme'')"
proof -
  let ?cfg = "example_settings (Some ''key'') None"
  let ?scraped = "[(''industry'', PStr ''Banking''), (''website'', PStr ''example.com'')]"
  let ?w = "fresh_world (\<lambda>url params. HttpResponse 200
            (Some (PDict [(''category'', PDict [(''industry'', PStr ''Fintech'')])])))"
  let ?run = "collect_company_data ?cfg (constant_scraper (PDict ?scraped)) ?w
        (Some ''Acme'') (Some ''acme.com'') False"
  let ?scraped2 = "[(''name'', PStr ''Acme'')]"
  let ?w2 = "fresh_world (\<lambda>url params. HttpResponse 200
            (Some (PDict [(''name'', PStr ''Acme Inc''), (''category'', PNone)])))"
  let ?run2 = "collect_company_data ?cfg (constant_scraper (PDict ?scraped2)) ?w2
        (Some ''Acme'') (Some ''acme.com'') False"
  have returns: "isl (fst ?run) = False"
    by code_simp
  then have run: "?run = (Inr (projr (fst ?run)), snd ?run)"
    by (cases "fst ?run") (auto simp: prod_eq_iff)
  have li: "linkedin_data (projr (fst ?run)) = PDict ?scraped"
    by code_simp
  have firm_industry: "dict_get (firmographic_fields (projr (fst ?run))) ''industry'' PNone
      = PStr ''Fintech''"
    by code_simp
  have firm_website: "dict_get (firmographic_fields (projr (fst ?run))) ''website'' PNone = PNone"
    by code_simp
  have industry: "map_of (aggregated_data (projr (fst ?run))) ''industry'' = Some (PStr ''Fintech'')"
    using C2_merge_precedence [OF run, of "''industry''"] li firm_industry
    by (simp add: dict_get_def py_or_def)
  have website: "map_of (aggregated_data (projr (fst ?run))) ''website'' = Some (PStr ''example.com'')"
    using C2_merge_precedence [OF run, of "''website''"] li firm_website
    by (simp add: dict_get_def py_or_def)
  have returns2: "isl (fst ?run2) = False"
    by code_simp
  then have run2: "?run2 = (Inr (projr (fst ?run2)), snd ?run2)"
    by (cases "fst ?run2") (auto simp: prod_eq_iff)
  have li2: "linkedin_data (projr (fst ?run2)) = PDict ?scraped2"
    by code_simp
  have cb2: "truthy (clearbit_data (projr (fst ?run2)))"
    by code_simp
  have firm2: "firmographic_fields (projr (fst ?run2)) = []"
    by code_simp
  have name2: "map_of (aggregated_data (projr (fst ?run2))) ''name'' = Some (PStr ''Acme'')"
    using C2_merge_precedence [OF run2, of "''name''"] li2 firm2
    by (simp add: dict_get_def py_or_def)
  from industry website cb2 name2 show ?thesis by blast
qed

section \<open>C5: no identity, no collection\<close>

text \<open>
  C5. With neither a company name nor a domain (each absent or empty)
  \<open>collect_company_data\<close> raises \<open>ValueError\<close> at once: the world it returns is the one
  it was given, with no Redis command and no HTTP request added to the trace, whatever the
  scraper and the configuration are. With a name or a domain it never raises \<open>ValueError\<close>.
\<close>

theorem C5_invalid_input:
  "(\<not> str_given company_name \<and> \<not> str_given domain \<longrightarrow>
      collect_company_data cfg linkedin w company_name domain use_cache = (Inl ValueError, w))
   \<and> (str_given company_name \<or> str_given domain \<longrightarrow>
      fst (collect_company_data cfg linkedin w company_name domain use_cache) \<noteq> Inl ValueError)"
  by (auto simp: collect_company_data_def merge_company_data_def ebind_def Let_def
      split: if_splits pyval.splits)

theorem C5_invalid_input_witness:
  "\<not> str_given None \<and> \<not> str_given (Some [])
   \<and> collect_company_data (example_settings (Some ''key'') (Some ''key''))
        (mock_linkedin_scraper (\<lambda>i. PNone)) (fresh_world (\<lambda>url params. HttpTimeout))
        None (Some []) True
      = (Inl ValueError, fresh_world (\<lambda>url params. HttpTimeout))
   \<and> trace (fresh_world (\<lambda>url params. HttpTimeout)) = []
   \<and> str_given (Some ''Acme'')
   \<and> fst (collect_company_data (example_settings (Some ''key'') (Some ''key''))
        (mock_linkedin_scraper (\<lambda>i. PNone)) (fresh_world (\<lambda>url params. HttpTimeout))
        (Some ''Acme'') None True) \<noteq> Inl ValueError"
proof -
  have a: "\<not> str_given None" and b: "\<not> str_given (Some [])" and c: "str_given (Some ''Acme'')"
    by (simp_all add: str_given_def)
  have t: "trace (fresh_world (\<lambda>url params. HttpTimeout)) = []"
    by (simp add: fresh_world_def)
  from a b c t
    C5_invalid_input [of None "Some []" "example_settings (Some ''key'') (Some ''key'')"
      "mock_linkedin_scraper (\<lambda>i. PNone)" "fresh_world (\<lambda>url params. HttpTimeout)" True]
    C5_invalid_input [of "Some ''Acme''" None "example_settings (Some ''key'') (Some ''key'')"
      "mock_linkedin_scraper (\<lambda>i. PNone)" "fresh_world (\<lambda>url params. HttpTimeout)" True]
  show ?thesis by blast
qed

section \<open>C10: cache round trip\<close>

text \<open>
  C10 (as the claim states it, refuted). A tuple is JSON-serializable: \<open>set\<close> stores
  \<open>(1, 2)\<close> and returns \<open>True\<close>, and \<open>get\<close> returns the list \<open>[1, 2]\<close>, which is not
  equal to the tuple stored.
\<close>

theorem C10_tuple_counterexample:
  "fst (cache_set (example_settings None None) (fresh_world (\<lambda>url params. HttpFailure))
          ''ns'' ''id'' (PTuple [PInt 1, PInt 2]) (Some 60)) = True
   \<and> fst (cache_get
          (snd (cache_set (example_settings None None) (fresh_world (\<lambda>url params. HttpFailure))
             ''ns'' ''id'' (PTuple [PInt 1, PInt 2]) (Some 60))) ''ns'' ''id'')
       = PList [PInt 1, PInt 2]
   \<and> PList [PInt 1, PInt 2] \<noteq> PTuple [PInt 1, PInt 2]"
  by code_simp

text \<open>
  C10 (amended). For every namespace, identifier and positive \<open>ttl\<close>, and for every value
  built from \<open>None\<close>, booleans, integers, strings, lists and dictionaries with string keys:
  on a reachable store \<open>set\<close> succeeds, and once \<open>set(ns, id, value, ttl)\<close> has stored the
  value, a \<open>get(ns, id)\<close> made less than \<open>ttl\<close> seconds later returns a value equal to
  it. For any other value that \<open>set\<close> stores, \<open>get\<close> returns what \<open>json.loads\<close> reads
  from the text \<open>json.dumps\<close> wrote (a tuple comes back as a list). After
  \<open>delete(ns, id)\<close>, \<open>exists(ns, id)\<close> is false, in every state of the world.
\<close>

theorem C10_cache_round_trip:
  "(redis_up w \<and> 0 < ttl \<and> json_native data \<longrightarrow>
      fst (cache_set cfg w namespace identifier data (Some ttl)) = True)
   \<and> (json_native data \<and> cache_set cfg w namespace identifier data (Some ttl) = (True, w1)
        \<and> 0 < ttl \<and> int elapsed < ttl \<longrightarrow>
        fst (cache_get (advance_clock elapsed w1) namespace identifier) = data)
   \<and> (cache_set cfg w namespace identifier data (Some ttl) = (True, w1)
        \<and> 0 < ttl \<and> int elapsed < ttl \<longrightarrow>
        (\<exists>text. json_dumps data = Inr text
           \<and> fst (cache_get (advance_clock elapsed w1) namespace identifier) = json_loads text))
   \<and> fst (cache_exists (snd (cache_delete w2 namespace identifier)) namespace identifier) = False"
proof -
  have stored: "redis_up w \<and> 0 < ttl \<and> json_native data \<longrightarrow>
      fst (cache_set cfg w namespace identifier data (Some ttl)) = True"
  proof
    assume a: "redis_up w \<and> 0 < ttl \<and> json_native data"
    then obtain j where "json_dumps data = Inr j"
      using json_round_trip by blast
    then show "fst (cache_set cfg w namespace identifier data (Some ttl)) = True"
      using a by (simp add: cache_set_def redis_setex_def Let_def)
  qed
  have general: "cache_set cfg w namespace identifier data (Some ttl) = (True, w1)
        \<and> 0 < ttl \<and> int elapsed < ttl \<longrightarrow>
        (\<exists>text. json_dumps data = Inr text
           \<and> fst (cache_get (advance_clock elapsed w1) namespace identifier) = json_loads text)"
  proof
    assume a: "cache_set cfg w namespace identifier data (Some ttl) = (True, w1)
        \<and> 0 < ttl \<and> int elapsed < ttl"
    then obtain j where j: "json_dumps data = Inr j" and s: "redis_up w1" "clock w1 = clock w"
        "redis_data w1 (generate_key namespace identifier) = Some (JsonText j, clock w + nat ttl)"
      using cache_set_stores by blast
    have up: "redis_up (advance_clock elapsed w1)"
      using s(1) by (simp add: advance_clock_def)
    have "elapsed < nat ttl" using a by linarith
    then have live: "redis_live (advance_clock elapsed w1) (generate_key namespace identifier)
        = Some (JsonText j)"
      using s by (simp add: redis_live_def advance_clock_def)
    have "fst (cache_get (advance_clock elapsed w1) namespace identifier) = json_loads j"
      by (rule cache_get_live [OF up live])
    with j show "\<exists>text. json_dumps data = Inr text
           \<and> fst (cache_get (advance_clock elapsed w1) namespace identifier) = json_loads text"
      by blast
  qed
  have round: "json_native data \<and> cache_set cfg w namespace identifier data (Some ttl) = (True, w1)
        \<and> 0 < ttl \<and> int elapsed < ttl \<longrightarrow>
        fst (cache_get (advance_clock elapsed w1) namespace identifier) = data"
  proof
    assume a: "json_native data \<and> cache_set cfg w namespace identifier data (Some ttl) = (True, w1)
        \<and> 0 < ttl \<and> int elapsed < ttl"
    then obtain doc where t: "json_dumps data = Inr doc"
        "fst (cache_get (advance_clock elapsed w1) namespace identifier) = json_loads doc"
      using general by blast
    obtain j where j: "json_dumps data = Inr j" "json_loads j = data"
      using a json_round_trip by blast
    show "fst (cache_get (advance_clock elapsed w1) namespace identifier) = data"
      using t j by simp
  qed
  have gone: "fst (cache_exists (snd (cache_delete w2 namespace identifier)) namespace identifier)
      = False"
    by (simp add: cache_exists_def cache_delete_def redis_exists_def redis_delete_def
        redis_live_def log_event_def Let_def)
  from stored round general gone show ?thesis by blast
qed

theorem C10_cache_round_trip_witness:
  "redis_up (fresh_world (\<lambda>url params. HttpFailure))
   \<and> json_native (PDict [(''a'', PInt 1)])
   \<and> fst (cache_set (example_settings None None) (fresh_world (\<lambda>url params. HttpFailure))
          ''ns'' ''id'' (PDict [(''a'', PInt 1)]) (Some 60)) = True
   \<and> fst (cache_get (advance_clock 59
          (snd (cache_set (example_settings None None) (fresh_world (\<lambda>url params. HttpFailure))
             ''ns'' ''id'' (PDict [(''a'', PInt 1)]) (Some 60)))) ''ns'' ''id'')
       = PDict [(''a'', PInt 1)]
   \<and> fst (cache_exists (snd (cache_delete
          (snd (cache_set (example_settings None None) (fresh_world (\<lambda>url params. HttpFailure))
             ''ns'' ''id'' (PDict [(''a'', PInt 1)]) (Some 60))) ''ns'' ''id'')) ''ns'' ''id'')
       = False"
proof -
  let ?cfg = "example_settings None None"
  let ?w = "fresh_world (\<lambda>url params. HttpFailure)"
  let ?set = "cache_set ?cfg ?w ''ns'' ''id'' (PDict [(''a'', PInt 1)]) (Some 60)"
  note inst = C10_cache_round_trip [of ?w 60 "PDict [(''a'', PInt 1)]" ?cfg "''ns''" "''id''"
      "snd ?set" 59 "snd ?set"]
  have up: "redis_up ?w"
    by (simp add: fresh_world_def)
  have native: "json_native (PDict [(''a'', PInt 1)])"
    by simp
  have ok: "fst ?set = True"
    using inst up native by simp
  then have pair: "?set = (True, snd ?set)"
    by (simp add: prod_eq_iff)
  have got: "fst (cache_get (advance_clock 59 (snd ?set)) ''ns'' ''id'') = PDict [(''a'', PInt 1)]"
    using inst pair native by simp
  have gone: "fst (cache_exists (snd (cache_delete (snd ?set) ''ns'' ''id'')) ''ns'' ''id'') = False"
    using inst by blast
  from up native ok got gone show ?thesis by blast
qed

section \<open>C7: get-or-compute\<close>

text \<open>
  C7. \<open>get_or_set\<close> returns the cached value, without calling \<open>fetch_func\<close>, when
  \<open>get\<close> finds one that is not \<open>None\<close> (a key that is stored, unexpired and holds the
  JSON text of such a value). Otherwise it calls \<open>fetch_func\<close> and returns what that
  returns, storing it first when it is not \<open>None\<close> and storing nothing when it is
  \<open>None\<close>. After the store, the key holds the JSON text of the result, and a result
  built from \<open>None\<close>, booleans, integers, strings, lists and dictionaries is read back as
  it is; a result that \<open>json.dumps\<close> rejects is returned all the same and nothing is
  written. When \<open>fetch_func\<close> raises, the call returns \<open>None\<close>: the result of
  \<open>get_or_set\<close> is always a value, never an exception.
\<close>

theorem C7_get_or_set:
  "(cache_get w namespace identifier = (cached, w1) \<and> cached \<noteq> PNone \<longrightarrow>
      get_or_set cfg w namespace identifier fetch_func ttl = (cached, w1))
   \<and> (redis_up w \<and> redis_data w (generate_key namespace identifier) = Some (JsonText text, expiry)
        \<and> clock w < expiry \<and> json_loads text = cached \<and> cached \<noteq> PNone \<longrightarrow>
      get_or_set cfg w namespace identifier fetch_func ttl
        = (cached, log_event (RedisGet (generate_key namespace identifier)) w))
   \<and> (cache_get w namespace identifier = (PNone, w1) \<and> fetch_func w1 = (Inr data, w2) \<longrightarrow>
      get_or_set cfg w namespace identifier fetch_func ttl
        = (data, if data \<noteq> PNone then snd (cache_set cfg w2 namespace identifier data ttl) else w2))
   \<and> (cache_get w namespace identifier = (PNone, w1) \<and> fetch_func w1 = (Inr data, w2)
        \<and> data \<noteq> PNone \<and> redis_up w2 \<and> ttl = Some seconds \<and> 0 < seconds
        \<and> json_dumps data = Inr written \<longrightarrow>
      redis_live (snd (get_or_set cfg w namespace identifier fetch_func ttl))
         (generate_key namespace identifier) = Some (JsonText written))
   \<and> (cache_get w namespace identifier = (PNone, w1) \<and> fetch_func w1 = (Inr data, w2)
        \<and> data \<noteq> PNone \<and> redis_up w2 \<and> ttl = Some seconds \<and> 0 < seconds
        \<and> json_native data \<longrightarrow>
      fst (cache_get (snd (get_or_set cfg w namespace identifier fetch_func ttl))
             namespace identifier) = data)
   \<and> (cache_get w namespace identifier = (PNone, w1) \<and> fetch_func w1 = (Inr data, w2)
        \<and> json_dumps data = Inl e' \<longrightarrow>
      get_or_set cfg w namespace identifier fetch_func ttl = (data, w2))
   \<and> (cache_get w namespace identifier = (PNone, w1) \<and> fetch_func w1 = (Inl e, w2) \<longrightarrow>
      get_or_set cfg w namespace identifier fetch_func ttl = (PNone, w2))"
proof -
  have hit: "cache_get w namespace identifier = (cached, w1) \<and> cached \<noteq> PNone \<longrightarrow>
      get_or_set cfg w namespace identifier fetch_func ttl = (cached, w1)"
    by (simp add: get_or_set_def)
  have hit_store: "redis_up w
        \<and> redis_data w (generate_key namespace identifier) = Some (JsonText text, expiry)
        \<and> clock w < expiry \<and> json_loads text = cached \<and> cached \<noteq> PNone \<longrightarrow>
      get_or_set cfg w namespace identifier fetch_func ttl
        = (cached, log_event (RedisGet (generate_key namespace identifier)) w)"
    by (auto simp add: get_or_set_def cache_get_def redis_get_def redis_live_def Let_def)
  have miss: "cache_get w namespace identifier = (PNone, w1) \<and> fetch_func w1 = (Inr data, w2) \<longrightarrow>
      get_or_set cfg w namespace identifier fetch_func ttl
        = (data, if data \<noteq> PNone then snd (cache_set cfg w2 namespace identifier data ttl) else w2)"
    by (simp add: get_or_set_def)
  have stored: "cache_get w namespace identifier = (PNone, w1) \<and> fetch_func w1 = (Inr data, w2)
        \<and> data \<noteq> PNone \<and> redis_up w2 \<and> ttl = Some seconds \<and> 0 < seconds
        \<and> json_dumps data = Inr written \<longrightarrow>
      redis_live (snd (get_or_set cfg w namespace identifier fetch_func ttl))
         (generate_key namespace identifier) = Some (JsonText written)"
    by (simp add: get_or_set_def cache_set_def redis_setex_def redis_live_def log_event_def Let_def)
  have readable: "cache_get w namespace identifier = (PNone, w1) \<and> fetch_func w1 = (Inr data, w2)
        \<and> data \<noteq> PNone \<and> redis_up w2 \<and> ttl = Some seconds \<and> 0 < seconds
        \<and> json_native data \<longrightarrow>
      fst (cache_get (snd (get_or_set cfg w namespace identifier fetch_func ttl))
             namespace identifier) = data"
  proof
    assume a: "cache_get w namespace identifier = (PNone, w1) \<and> fetch_func w1 = (Inr data, w2)
        \<and> data \<noteq> PNone \<and> redis_up w2 \<and> ttl = Some seconds \<and> 0 < seconds
        \<and> json_native data"
    then obtain j where j: "json_dumps data = Inr j" "json_loads j = data"
      using json_round_trip by blast
    let ?after = "snd (get_or_set cfg w namespace identifier fetch_func ttl)"
    have up: "redis_up ?after"
      using a j by (simp add: get_or_set_def cache_set_def redis_setex_def log_event_def Let_def)
    have live: "redis_live ?after (generate_key namespace identifier) = Some (JsonText j)"
      using a j
      by (simp add: get_or_set_def cache_set_def redis_setex_def redis_live_def log_event_def Let_def)
    show "fst (cache_get ?after namespace identifier) = data"
      using cache_get_live [OF up live] j by simp
  qed
  have unserializable: "cache_get w namespace identifier = (PNone, w1)
        \<and> fetch_func w1 = (Inr data, w2) \<and> json_dumps data = Inl e' \<longrightarrow>
      get_or_set cfg w namespace identifier fetch_func ttl = (data, w2)"
    by (auto simp add: get_or_set_def cache_set_def)
  have failed: "cache_get w namespace identifier = (PNone, w1) \<and> fetch_func w1 = (Inl e, w2) \<longrightarrow>
      get_or_set cfg w namespace identifier fetch_func ttl = (PNone, w2)"
    by (simp add: get_or_set_def)
  from hit hit_store miss stored readable unserializable failed show ?thesis by blast
qed

theorem C7_get_or_set_witness:
  "get_or_set (example_settings None None) (fresh_world (\<lambda>url params. HttpFailure)) ''ns'' ''id''
       (\<lambda>w. (Inl ValueError, w)) (Some 60)
     = (PNone, log_event (RedisGet (generate_key ''ns'' ''id'')) (fresh_world (\<lambda>url params. HttpFailure)))
   \<and> fst (get_or_set (example_settings None None) (fresh_world (\<lambda>url params. HttpFailure))
       ''ns'' ''id'' (\<lambda>w. (Inr (PStr ''fetched''), w)) (Some 60)) = PStr ''fetched''
   \<and> fst (get_or_set (example_settings None None)
        (snd (get_or_set (example_settings None None) (fresh_world (\<lambda>url params. HttpFailure))
           ''ns'' ''id'' (\<lambda>w. (Inr (PStr ''fetched''), w)) (Some 60)))
        ''ns'' ''id'' (\<lambda>w. (Inl ValueError, w)) (Some 60)) = PStr ''fetched''"
proof -
  let ?cfg = "example_settings None None"
  let ?w = "fresh_world (\<lambda>url params. HttpFailure)"
  let ?w1 = "log_event (RedisGet (generate_key ''ns'' ''id'')) ?w"
  let ?fail = "\<lambda>w::world. (Inl ValueError :: error + pyval, w)"
  let ?fetch = "\<lambda>w::world. (Inr (PStr ''fetched'') :: error + pyval, w)"
  let ?after = "snd (get_or_set ?cfg ?w ''ns'' ''id'' ?fetch (Some 60))"
  have miss: "cache_get ?w ''ns'' ''id'' = (PNone, ?w1)"
    by (simp add: cache_get_def redis_get_def redis_live_def fresh_world_def Let_def)
  have failed: "get_or_set ?cfg ?w ''ns'' ''id'' ?fail (Some 60) = (PNone, ?w1)"
    using C7_get_or_set [of ?w "''ns''" "''id''" PNone ?w1 ?cfg ?fail "Some 60" JNull 0 PNone ?w1 60
        JNull ValueError ValueError] miss
    by simp
  have fetched: "fst (get_or_set ?cfg ?w ''ns'' ''id'' ?fetch (Some 60)) = PStr ''fetched''"
    using C7_get_or_set [of ?w "''ns''" "''id''" PNone ?w1 ?cfg ?fetch "Some 60" JNull 0
        "PStr ''fetched''" ?w1 60 JNull ValueError ValueError] miss
    by simp
  have hit: "cache_get ?after ''ns'' ''id'' = (PStr ''fetched'', snd (cache_get ?after ''ns'' ''id''))"
  proof -
    have "fst (cache_get ?after ''ns'' ''id'') = PStr ''fetched''"
      by code_simp
    then show ?thesis by (simp add: prod_eq_iff)
  qed
  have ne: "PStr ''fetched'' \<noteq> PNone"
    by simp
  have "get_or_set ?cfg ?after ''ns'' ''id'' ?fail (Some 60)
      = (PStr ''fetched'', snd (cache_get ?after ''ns'' ''id''))"
    using C7_get_or_set [of ?after "''ns''" "''id''" "PStr ''fetched''"
        "snd (cache_get ?after ''ns'' ''id'')" ?cfg ?fail "Some 60" JNull 0 PNone ?w1 60 JNull
        ValueError ValueError] hit ne
    by blast
  then have cached: "fst (get_or_set ?cfg ?after ''ns'' ''id'' ?fail (Some 60)) = PStr ''fetched''"
    by simp
  from failed fetched cached show ?thesis by blast
qed

section \<open>C8: the pattern-based email generator\<close>

text \<open>
  C8 (as the claim states it, refuted). With an API key configured and nothing cached for
  the domain, \<open>generate_email\<close> sends a \<open>domain-search\<close> request to the remote API (and
  writes the answer to the cache) before it substitutes the names into the pattern.
\<close>

theorem C8_network_fetch_counterexample:
  "(case generate_email (example_settings None (Some ''key''))
          (fresh_world (\<lambda>url params. HttpResponse 200
             (Some (PDict [(''data'', PDict [(''pattern'', PStr ''{first}.{last}'')])]))))
          ''John'' ''Doe'' ''acme.com'' of
      (email, w') \<Rightarrow> (email, trace w'))
   = (Inr (Some ''john.doe''),
      [RedisGet ''cache:hunter:hunter_domain:acme.com'',
       HttpGet ''https://api.hunter.io/v2/domain-search''
         [(''domain'', PStr ''acme.com''), (''api_key'', PStr ''key'')],
       RedisSetex ''cache:hunter:hunter_domain:acme.com'' 604800])"
proof -
  let ?cfg = "example_settings None (Some ''key'')"
  let ?w = "fresh_world (\<lambda>url params. HttpResponse 200
             (Some (PDict [(''data'', PDict [(''pattern'', PStr ''{first}.{last}'')])])))"
  have "generate_email ?cfg ?w ''John'' ''Doe'' ''acme.com''
      = (Inr (Some ''john.doe''), snd (get_email_pattern ?cfg ?w ''acme.com''))"
    using example_pattern_lookup
    by (cases "get_email_pattern ?cfg ?w ''acme.com''")
       (simp add: generate_email_def fill_example)
  then show ?thesis
    by (simp add: example_pattern_calls)
qed

text \<open>
  C8 (amended). \<open>generate_email\<close> first obtains the pattern of the domain through
  \<open>get_email_pattern\<close>, that is through \<open>domain_search\<close>: a cache read and, when the cache
  has nothing for the domain and an API key is configured, a request to the remote API.
  Only the step after that is a pure string substitution: with a non-empty pattern the
  result is the lower-cased pattern in which \<open>{first}\<close>, \<open>{last}\<close>, \<open>{f}\<close> and
  \<open>{l}\<close> are replaced, in that order, by the lower-cased first name, last name, first
  letter of the first name and first letter of the last name, and the world is left as the
  lookup left it; with no pattern the result is \<open>None\<close>. On a cache hit the only call is
  the cache read.
\<close>

theorem C8_generate_email:
  "(get_email_pattern cfg w domain = (Inr (PStr pattern), w') \<and> pattern \<noteq> [] \<longrightarrow>
      generate_email cfg w first_name last_name domain =
        (Inr (Some
           (py_replace ''{l}'' (py_lower (take 1 last_name))
             (py_replace ''{f}'' (py_lower (take 1 first_name))
               (py_replace ''{last}'' (py_lower last_name)
                 (py_replace ''{first}'' (py_lower first_name) (py_lower pattern)))))), w'))
   \<and> (get_email_pattern cfg w domain = (Inr p, w') \<and> \<not> truthy p \<longrightarrow>
        generate_email cfg w first_name last_name domain = (Inr None, w'))
   \<and> (truthy (fst (cache_get w ''hunter'' (''hunter_domain:'' @ domain))) \<longrightarrow>
        trace (snd (generate_email cfg w first_name last_name domain))
          = trace w @ [RedisGet (generate_key ''hunter'' (''hunter_domain:'' @ domain))])
   \<and> (\<not> truthy (fst (cache_get w ''hunter'' (''hunter_domain:'' @ domain)))
        \<and> hunter_api_key cfg = Some key \<and> key \<noteq> [] \<longrightarrow>
        HttpGet (hunter_base_url @ ''/domain-search'')
            [(''domain'', PStr domain), (''api_key'', PStr key)]
          \<in> set (trace (snd (generate_email cfg w first_name last_name domain))))"
proof -
  have subst: "get_email_pattern cfg w domain = (Inr (PStr pattern), w') \<and> pattern \<noteq> [] \<longrightarrow>
      generate_email cfg w first_name last_name domain =
        (Inr (Some
           (py_replace ''{l}'' (py_lower (take 1 last_name))
             (py_replace ''{f}'' (py_lower (take 1 first_name))
               (py_replace ''{last}'' (py_lower last_name)
                 (py_replace ''{first}'' (py_lower first_name) (py_lower pattern)))))), w')"
    by (simp add: generate_email_def fill_pattern_def Let_def)
  have none: "get_email_pattern cfg w domain = (Inr p, w') \<and> \<not> truthy p \<longrightarrow>
        generate_email cfg w first_name last_name domain = (Inr None, w')"
    by (simp add: generate_email_def)
  have hit: "truthy (fst (cache_get w ''hunter'' (''hunter_domain:'' @ domain))) \<longrightarrow>
        trace (snd (generate_email cfg w first_name last_name domain))
          = trace w @ [RedisGet (generate_key ''hunter'' (''hunter_domain:'' @ domain))]"
  proof
    assume h: "truthy (fst (cache_get w ''hunter'' (''hunter_domain:'' @ domain)))"
    show "trace (snd (generate_email cfg w first_name last_name domain))
          = trace w @ [RedisGet (generate_key ''hunter'' (''hunter_domain:'' @ domain))]"
      unfolding generate_email_world hunter_domain_search_hit [OF h]
      by (simp add: log_event_def)
  qed
  have miss: "\<not> truthy (fst (cache_get w ''hunter'' (''hunter_domain:'' @ domain)))
        \<and> hunter_api_key cfg = Some key \<and> key \<noteq> [] \<longrightarrow>
        HttpGet (hunter_base_url @ ''/domain-search'')
            [(''domain'', PStr domain), (''api_key'', PStr key)]
          \<in> set (trace (snd (generate_email cfg w first_name last_name domain)))"
    unfolding generate_email_world
    using hunter_domain_search_miss_trace [of cfg key w domain] by blast
  from subst none hit miss show ?thesis by blast
qed

theorem C8_generate_email_witness:
  "generate_email (example_settings None (Some ''key''))
          (fresh_world (\<lambda>url params. HttpResponse 200
             (Some (PDict [(''data'', PDict [(''pattern'', PStr ''{first}.{last}'')])]))))
          ''John'' ''Doe'' ''acme.com''
     = (Inr (Some ''john.doe''),
        snd (get_email_pattern (example_settings None (Some ''key''))
          (fresh_world (\<lambda>url params. HttpResponse 200
             (Some (PDict [(''data'', PDict [(''pattern'', PStr ''{first}.{last}'')])]))))
          ''acme.com''))
   \<and> HttpGet (hunter_base_url @ ''/domain-search'')
            [(''domain'', PStr ''acme.com''), (''api_key'', PStr ''key'')]
          \<in> set (trace (snd (generate_email (example_settings None (Some ''key''))
          (fresh_world (\<lambda>url params. HttpResponse 200
             (Some (PDict [(''data'', PDict [(''pattern'', PStr ''{first}.{last}'')])]))))
          ''John'' ''Doe'' ''acme.com'')))"
proof -
  let ?cfg = "example_settings None (Some ''key'')"
  let ?w = "fresh_world (\<lambda>url params. HttpResponse 200
             (Some (PDict [(''data'', PDict [(''pattern'', PStr ''{first}.{last}'')])])))"
  let ?w' = "snd (get_email_pattern ?cfg ?w ''acme.com'')"
  note inst = C8_generate_email [of ?cfg ?w "''acme.com''" "''{first}.{last}''" ?w'
      "''John''" "''Doe''" PNone "''key''"]
  have lookup: "get_email_pattern ?cfg ?w ''acme.com'' = (Inr (PStr ''{first}.{last}''), ?w')"
    using example_pattern_lookup by (simp add: prod_eq_iff)
  have filled: "py_replace ''{l}'' (py_lower (take 1 ''Doe''))
             (py_replace ''{f}'' (py_lower (take 1 ''John''))
               (py_replace ''{last}'' (py_lower ''Doe'')
                 (py_replace ''{first}'' (py_lower ''John'') (py_lower ''{first}.{last}''))))
      = ''john.doe''"
    using fill_example by (simp only: fill_pattern_def Let_def)
  have miss: "\<not> truthy (fst (cache_get ?w ''hunter'' (''hunter_domain:'' @ ''acme.com'')))"
    by (simp add: cache_get_def redis_get_def redis_live_def fresh_world_def Let_def)
  have key: "hunter_api_key ?cfg = Some ''key''"
    by (simp add: example_settings_def)
  have email: "generate_email ?cfg ?w ''John'' ''Doe'' ''acme.com'' = (Inr (Some ''john.doe''), ?w')"
    using inst lookup filled by simp
  have request: "HttpGet (hunter_base_url @ ''/domain-search'')
            [(''domain'', PStr ''acme.com''), (''api_key'', PStr ''key'')]
          \<in> set (trace (snd (generate_email ?cfg ?w ''John'' ''Doe'' ''acme.com'')))"
    using inst miss key by simp
  from email request show ?thesis by blast
qed

end
